theory Spec2Isabelle
  imports Complex_Main "HOL-Library.AList" "HOL-Library.DAList" "HOL-Library.Log_Nat"
begin

section \<open>Shared vocabulary\<close>

text \<open>
  JavaScript numbers (clock readings, durations, scores) are finite real numbers; NaN
  and the infinities are outside the model. Comparisons are exact. The windowed total
  of the layout-shift analyzer, where the rounding of a difference decides which records
  count, is computed with the double-precision operations of the next section. The
  other sums, differences and quotients are the exact ones, and so are the decimal
  thresholds they are compared with.

  A JavaScript \<^verbatim>\<open>Map<string, V>\<close> is a \<open>(string, V) alist\<close>: an association list
  with distinct keys in insertion order. \<open>DAList.lookup\<close> is \<^verbatim>\<open>get\<close>,
  \<open>DAList.update\<close> is \<^verbatim>\<open>set\<close> (a present key keeps its position, a new key goes
  to the end), \<open>DAList.delete\<close> is \<^verbatim>\<open>delete\<close>, \<open>DAList.empty\<close> the result of
  \<^verbatim>\<open>clear\<close>, and \<open>DAList.impl_of\<close> gives the entries in iteration order.
\<close>

datatype any = JString string | JNumber real | JBoolean bool

text \<open>\<^verbatim>\<open>Record<string, any>\<close>; an optional parameter that was left out is \<open>None\<close>.\<close>

type_synonym metadata = "string \<rightharpoonup> any"

text \<open>Object spread \<^verbatim>\<open>{...m}\<close>: spreading \<^verbatim>\<open>undefined\<close> contributes no key.\<close>

definition spread :: "metadata option \<Rightarrow> metadata" where
  "spread m = (case m of None \<Rightarrow> Map.empty | Some kv \<Rightarrow> kv)"

text \<open>The three marker emojis of the log lines: red, yellow and green circle.\<close>

datatype color = Red | Yellow | Green

text \<open>
  A thrown value (or the reason of a rejected promise). The code reads it only through
  \<^verbatim>\<open>error instanceof Error ? error.message : String(error)\<close>, so a thrown value is
  an \<^verbatim>\<open>Error\<close> with its message, or another value with its string rendering, or a
  value for which that expression itself throws: \<open>Unconvertible raised\<close> is a value
  whose conversion throws \<open>raised\<close>. An object without prototype,
  \<^verbatim>\<open>Object.create(null)\<close>, is of the last kind: \<^verbatim>\<open>String\<close> of it throws a
  \<^verbatim>\<open>TypeError\<close>.
\<close>

datatype thrown = JsError string | NonError string | Unconvertible thrown

text \<open>
  The expression \<^verbatim>\<open>error instanceof Error ? error.message : String(error)\<close>: the text
  (\<open>Inr\<close>), or what evaluating it throws (\<open>Inl\<close>).
\<close>

definition error_text :: "thrown \<Rightarrow> thrown + string" where
  "error_text e =
     (case e of
        JsError message \<Rightarrow> Inr message
      | NonError rendering \<Rightarrow> Inr rendering
      | Unconvertible raised \<Rightarrow> Inl raised)"


section \<open>Double-precision arithmetic\<close>

text \<open>
  A JavaScript number is an IEEE 754 double: a multiple of \<open>2 ^ (e - 52)\<close> where
  \<open>2 ^ e\<close> is the power of two at or below its magnitude, and \<open>e\<close> is at least
  \<open>- 1022\<close>. The result of \<^verbatim>\<open>a - b\<close> and of \<^verbatim>\<open>a + b\<close> is the exact result rounded
  to the nearest such multiple, a tie going to the even one. Results of magnitude
  \<open>2 ^ 1024\<close> and above, which the machine turns into an infinity, are outside the
  model.
\<close>

text \<open>Rounding to the nearest integer, a tie to the even one.\<close>

definition round_half_even :: "real \<Rightarrow> int" where
  "round_half_even y =
     (let f = \<lfloor>y\<rfloor> in
      if y - of_int f < 1 / 2 then f
      else if 1 / 2 < y - of_int f then f + 1
      else if even f then f else f + 1)"

text \<open>For positive \<open>x\<close>, the exponent \<open>e\<close> with \<open>2 ^ e \<le> x < 2 ^ (e + 1)\<close>.\<close>

definition binade :: "real \<Rightarrow> int" where
  "binade x = (if 1 \<le> x then bitlen \<lfloor>x\<rfloor> - 1 else - bitlen (\<lceil>1 / x\<rceil> - 1))"

text \<open>The exponent of the spacing of the doubles around \<open>x\<close>.\<close>

definition ulp_exponent :: "real \<Rightarrow> int" where
  "ulp_exponent x = max (binade \<bar>x\<bar>) (- 1022) - 52"

text \<open>The double nearest to \<open>x\<close>.\<close>

definition to_double :: "real \<Rightarrow> real" where
  "to_double x =
     (if x = 0 then 0
      else of_int (round_half_even (x / 2 powi ulp_exponent x)) * 2 powi ulp_exponent x)"

definition double_sub :: "real \<Rightarrow> real \<Rightarrow> real" where
  "double_sub a b = to_double (a - b)"

definition double_add :: "real \<Rightarrow> real \<Rightarrow> real" where
  "double_add a b = to_double (a + b)"


section \<open>Named-interval tracker: \<^verbatim>\<open>PerformanceLogger\<close> in lib/performance/logger.ts\<close>

record PerformanceData =
  name :: string
  startTime :: real
  endTime :: "real option"
  duration :: "real option"
  metadata :: "metadata option"

text \<open>
  What the tracker writes to the console. The text of a line is kept as its parts:
  \<open>Started name metadata\<close> is the \<^verbatim>\<open>console.log\<close> of \<^verbatim>\<open>start\<close>,
  \<open>Finished color name duration merged\<close> the \<^verbatim>\<open>console.log\<close> of \<^verbatim>\<open>end\<close> with
  the merged metadata object as its second argument, \<open>NoMeasurement name\<close> the
  \<^verbatim>\<open>console.warn\<close> of \<^verbatim>\<open>end\<close>, and the remaining ones the lines of
  \<^verbatim>\<open>printReport\<close>.
\<close>

datatype console_event =
    Started string "metadata option"
  | Finished color string real metadata
  | NoMeasurement string
  | NoMeasurementsRecorded
  | ReportGroup
  | ReportLine color string real
  | ReportGroupEnd

text \<open>
  The mutable state: the private \<^verbatim>\<open>measurements\<close> map and the console. The private
  flag \<^verbatim>\<open>isEnabled\<close> is assigned in the constructor only; it is the first argument
  of every method below.
\<close>

record PerformanceLogger =
  measurements :: "(string, PerformanceData) alist"
  console :: "console_event list"

definition PerformanceLogger_new :: PerformanceLogger where
  "PerformanceLogger_new = \<lparr>measurements = DAList.empty, console = []\<rparr>"

text \<open>The constructor's \<^verbatim>\<open>process.env['NODE_ENV'] === 'development'\<close>.\<close>

definition PerformanceLogger_isEnabled :: "string option \<Rightarrow> bool" where
  "PerformanceLogger_isEnabled node_env = (node_env = Some ''development'')"

text \<open>The marker of a duration: \<^verbatim>\<open>duration > 100 ? red : duration > 50 ? yellow : green\<close>.\<close>

definition duration_color :: "real \<Rightarrow> color" where
  "duration_color d = (if d > 100 then Red else if d > 50 then Yellow else Green)"

text \<open>\<^verbatim>\<open>start(name, metadata)\<close>; \<open>now\<close> is the reading of \<^verbatim>\<open>performance.now()\<close>.\<close>

definition start :: "bool \<Rightarrow> string \<Rightarrow> metadata option \<Rightarrow> real \<Rightarrow> PerformanceLogger \<Rightarrow> PerformanceLogger" where
  "start isEnabled nm md now s =
     (if \<not> isEnabled then s
      else s\<lparr>measurements :=
                DAList.update nm \<lparr>name = nm, startTime = now, endTime = None,
                                  duration = None, metadata = md\<rparr> (measurements s),
             console := console s @ [Started nm md]\<rparr>)"

text \<open>
  \<^verbatim>\<open>end(name, metadata)\<close>: \<open>None\<close> is \<^verbatim>\<open>null\<close>. The record found in the map is
  mutated in place (\<^verbatim>\<open>endTime\<close> and \<^verbatim>\<open>duration\<close>); the merged metadata is built
  for the log line.
\<close>

definition end_op :: "bool \<Rightarrow> string \<Rightarrow> metadata option \<Rightarrow> real \<Rightarrow> PerformanceLogger \<Rightarrow> real option \<times> PerformanceLogger" where
  "end_op isEnabled nm md now s =
     (if \<not> isEnabled then (None, s)
      else case DAList.lookup (measurements s) nm of
        None \<Rightarrow> (None, s\<lparr>console := console s @ [NoMeasurement nm]\<rparr>)
      | Some measurement \<Rightarrow>
          let d = now - startTime measurement
          in (Some d,
              s\<lparr>measurements :=
                   DAList.update nm (measurement\<lparr>endTime := Some now, duration := Some d\<rparr>)
                     (measurements s),
                console := console s @
                   [Finished (duration_color d) nm d (spread (metadata measurement) ++ spread md)]\<rparr>))"

text \<open>
  A wrapped operation \<^verbatim>\<open>fn\<close> is a state transformer: it may call the tracker itself,
  and it either returns a value (\<open>Inr\<close>) or throws (\<open>Inl\<close>). For \<^verbatim>\<open>measureAsync\<close>
  the transformer covers everything that happens to the tracker until the promise of
  \<^verbatim>\<open>fn\<close> settles, and the result is the settlement of the returned promise
  (\<open>Inl\<close> a rejection). \<open>t0\<close> and \<open>t1\<close> are the clock readings of \<^verbatim>\<open>start\<close> and
  \<^verbatim>\<open>end\<close>. In the \<^verbatim>\<open>catch\<close> block the argument of \<^verbatim>\<open>end\<close>, the error text, is
  evaluated before \<^verbatim>\<open>end\<close> is called and before \<^verbatim>\<open>throw error\<close>: when that
  evaluation throws, its exception leaves \<^verbatim>\<open>measure\<close> and neither \<^verbatim>\<open>end\<close> nor
  \<^verbatim>\<open>throw error\<close> is reached.
\<close>

type_synonym 'a wrapped = "PerformanceLogger \<Rightarrow> (thrown + 'a) \<times> PerformanceLogger"

definition measure_op :: "bool \<Rightarrow> string \<Rightarrow> 'a wrapped \<Rightarrow> metadata option \<Rightarrow> real \<Rightarrow> real \<Rightarrow> 'a wrapped" where
  "measure_op isEnabled nm fn md t0 t1 s =
     (case fn (start isEnabled nm md t0 s) of
        (Inr result, s') \<Rightarrow> (Inr result, snd (end_op isEnabled nm None t1 s'))
      | (Inl error, s') \<Rightarrow>
          (case error_text error of
             Inl raised \<Rightarrow> (Inl raised, s')
           | Inr text \<Rightarrow>
               (Inl error,
                snd (end_op isEnabled nm (Some [''error'' \<mapsto> JString text]) t1 s'))))"

definition measureAsync :: "bool \<Rightarrow> string \<Rightarrow> 'a wrapped \<Rightarrow> metadata option \<Rightarrow> real \<Rightarrow> real \<Rightarrow> 'a wrapped" where
  "measureAsync isEnabled nm fn md t0 t1 s =
     (case fn (start isEnabled nm md t0 s) of
        (Inr result, s') \<Rightarrow> (Inr result, snd (end_op isEnabled nm None t1 s'))
      | (Inl error, s') \<Rightarrow>
          (case error_text error of
             Inl raised \<Rightarrow> (Inl raised, s')
           | Inr text \<Rightarrow>
               (Inl error,
                snd (end_op isEnabled nm (Some [''error'' \<mapsto> JString text]) t1 s'))))"

text \<open>\<^verbatim>\<open>getReport()\<close>: the records with a duration, in the map's order.\<close>

definition getReport :: "PerformanceLogger \<Rightarrow> PerformanceData list" where
  "getReport s = filter (\<lambda>m. duration m \<noteq> None) (map snd (DAList.impl_of (measurements s)))"

text \<open>
  \<^verbatim>\<open>printReport()\<close>: the comparator \<^verbatim>\<open>(b.duration || 0) - (a.duration || 0)\<close> of
  the stable \<^verbatim>\<open>Array.prototype.sort\<close> orders by descending duration.
\<close>

definition duration_or_0 :: "PerformanceData \<Rightarrow> real" where
  "duration_or_0 m = (case duration m of None \<Rightarrow> 0 | Some d \<Rightarrow> d)"

definition printReport :: "bool \<Rightarrow> PerformanceLogger \<Rightarrow> PerformanceLogger" where
  "printReport isEnabled s =
     (if \<not> isEnabled then s
      else let report = getReport s in
        if length report = 0 then s\<lparr>console := console s @ [NoMeasurementsRecorded]\<rparr>
        else s\<lparr>console := console s @ [ReportGroup] @
                  map (\<lambda>m. ReportLine (duration_color (duration_or_0 m)) (name m) (duration_or_0 m))
                      (sort_key (\<lambda>m. - duration_or_0 m) report) @
                  [ReportGroupEnd]\<rparr>)"

definition clear :: "PerformanceLogger \<Rightarrow> PerformanceLogger" where
  "clear s = s\<lparr>measurements := DAList.empty\<rparr>"



section \<open>Layout-stability analyzer: \<^verbatim>\<open>LayoutShiftAnalyzer\<close> in lib/performance/layoutShift.ts\<close>

text \<open>A \<^verbatim>\<open>DOMRect\<close> read through its \<^verbatim>\<open>x\<close>, \<^verbatim>\<open>y\<close>, \<^verbatim>\<open>width\<close> and \<^verbatim>\<open>height\<close>.\<close>

type_synonym DOMRect = "real \<times> real \<times> real \<times> real"

text \<open>
  A \<^verbatim>\<open>LayoutShiftDetail\<close> and its sources. The DOM elements are of an arbitrary type
  \<open>'n\<close>: the analyzer reads an element only through \<^verbatim>\<open>getElementSelector\<close>, which
  is the argument \<open>sel\<close> of the functions below, so everything proved holds for
  whatever selector the DOM yields.
\<close>

record 'n shift_source =
  node :: 'n
  currentRect :: DOMRect
  previousRect :: DOMRect

record 'n LayoutShiftDetail =
  score :: real
  timestamp :: real
  sources :: "'n shift_source list"
  hadRecentInput :: bool

text \<open>
  A performance entry as the observer's callback reads it; \<open>e_sources = None\<close> is an
  entry without \<^verbatim>\<open>sources\<close>.
\<close>

record 'n performance_entry =
  e_entryType :: string
  e_startTime :: real
  e_value :: real
  e_sources :: "'n shift_source list option"
  e_hadRecentInput :: bool

datatype severity = Low | Medium | High

datatype layout_event =
    ShiftGroup color real severity
  | ShiftTimestamp real
  | AffectedElements
  | AffectedElement nat string
  | PreviousRect DOMRect
  | CurrentRect DOMRect
  | Movement real real real real
  | ShiftGroupEnd
  | TotalClsWarning real
  | LayoutReportGroup
  | TotalCls color real
  | TopElementsHeader
  | ElementLine nat color string
  | ElementStatsLine nat real real
  | LayoutReportGroupEnd
  | ObserverFailed

text \<open>
  The analyzer's state: the \<^verbatim>\<open>shifts\<close> array, whether \<^verbatim>\<open>observer\<close> is non-null,
  whether the observer is subscribed to the layout-shift stream, and the console.
\<close>

record 'n LayoutShiftAnalyzer =
  shifts :: "'n LayoutShiftDetail list"
  observer :: bool
  observing :: bool
  layout_console :: "layout_event list"

definition getShiftSeverity :: "real \<Rightarrow> severity" where
  "getShiftSeverity sc = (if sc < 0.01 then Low else if sc < 0.1 then Medium else High)"

text \<open>The marker of a severity in \<^verbatim>\<open>logLayoutShift\<close>.\<close>

definition severity_color :: "severity \<Rightarrow> color" where
  "severity_color sv = (if sv = High then Red else if sv = Medium then Yellow else Green)"

definition calculateMovement :: "DOMRect \<Rightarrow> DOMRect \<Rightarrow> layout_event" where
  "calculateMovement prev current =
     (case (prev, current) of
        ((px, py, pw, ph), (cx, cy, cw, ch)) \<Rightarrow> Movement (cx - px) (cy - py) (cw - pw) (ch - ph))"

text \<open>
  \<^verbatim>\<open>getTotalScore()\<close>; \<open>now\<close> is the reading of \<^verbatim>\<open>performance.now()\<close>. The
  difference and the sum are those of double arithmetic.
\<close>

definition getTotalScore :: "real \<Rightarrow> 'n LayoutShiftAnalyzer \<Rightarrow> real" where
  "getTotalScore now s =
     (let windowShifts = filter (\<lambda>shift. double_sub now (timestamp shift) \<le> 5000) (shifts s)
      in foldl (\<lambda>total shift. double_add total (score shift)) 0 windowShifts)"

definition source_lines :: "('n \<Rightarrow> string) \<Rightarrow> nat \<times> 'n shift_source \<Rightarrow> layout_event list" where
  "source_lines sel p =
     (case p of (index, source) \<Rightarrow>
        [AffectedElement (index + 1) (sel (node source)),
         PreviousRect (previousRect source),
         CurrentRect (currentRect source),
         calculateMovement (previousRect source) (currentRect source)])"

text \<open>
  \<^verbatim>\<open>logLayoutShift\<close>. The total it compares is a double, and the literal \<^verbatim>\<open>0.1\<close> it
  is compared with is the double nearest to 0.1.
\<close>

definition logLayoutShift :: "('n \<Rightarrow> string) \<Rightarrow> real \<Rightarrow> 'n LayoutShiftDetail \<Rightarrow> 'n LayoutShiftAnalyzer \<Rightarrow> 'n LayoutShiftAnalyzer" where
  "logLayoutShift sel now detail s =
     (let sv = getShiftSeverity (score detail);
          lines = [ShiftGroup (severity_color sv) (score detail) sv, ShiftTimestamp (timestamp detail)] @
                  (if length (sources detail) > 0
                   then AffectedElements # concat (map (source_lines sel) (enumerate 0 (sources detail)))
                   else []) @
                  [ShiftGroupEnd];
          cls = getTotalScore now s
      in s\<lparr>layout_console := layout_console s @ lines @
               (if cls > to_double 0.1 then [TotalClsWarning cls] else [])\<rparr>)"

text \<open>
  The body of the observer callback's loop for one entry; \<open>now\<close> is the clock reading
  while that entry is processed.
\<close>

definition handle_entry :: "('n \<Rightarrow> string) \<Rightarrow> real \<times> 'n performance_entry \<Rightarrow> 'n LayoutShiftAnalyzer \<Rightarrow> 'n LayoutShiftAnalyzer" where
  "handle_entry sel p s =
     (case p of (now, entry) \<Rightarrow>
        if e_entryType entry = ''layout-shift'' then
          if e_hadRecentInput entry then s
          else
            let detail = \<lparr>score = e_value entry,
                          timestamp = e_startTime entry,
                          sources = (case e_sources entry of None \<Rightarrow> [] | Some srcs \<Rightarrow> srcs),
                          hadRecentInput = e_hadRecentInput entry\<rparr>
            in logLayoutShift sel now detail (s\<lparr>shifts := shifts s @ [detail]\<rparr>)
        else s)"

text \<open>The observer callback: \<^verbatim>\<open>for (const entry of list.getEntries())\<close>.\<close>

definition observer_callback :: "('n \<Rightarrow> string) \<Rightarrow> (real \<times> 'n performance_entry) list \<Rightarrow> 'n LayoutShiftAnalyzer \<Rightarrow> 'n LayoutShiftAnalyzer" where
  "observer_callback sel batch s = fold (handle_entry sel) batch s"

text \<open>
  \<^verbatim>\<open>initializeObserver()\<close>: what the browser does in the \<^verbatim>\<open>try\<close> block. Either
  \<^verbatim>\<open>new PerformanceObserver\<close> throws and \<^verbatim>\<open>observer\<close> stays null, or the observer
  is assigned and \<^verbatim>\<open>observe\<close> throws, or both succeed; the \<^verbatim>\<open>catch\<close> turns an
  exception into a warning.
\<close>

datatype observer_setup = ConstructorThrows | ObserveThrows | Subscribed

definition initializeObserver :: "observer_setup \<Rightarrow> 'n LayoutShiftAnalyzer \<Rightarrow> 'n LayoutShiftAnalyzer" where
  "initializeObserver setup s =
     (case setup of
        ConstructorThrows \<Rightarrow> s\<lparr>layout_console := layout_console s @ [ObserverFailed]\<rparr>
      | ObserveThrows \<Rightarrow> s\<lparr>observer := True, layout_console := layout_console s @ [ObserverFailed]\<rparr>
      | Subscribed \<Rightarrow> s\<lparr>observer := True, observing := True\<rparr>)"

definition LayoutShiftAnalyzer_isEnabled :: "string option \<Rightarrow> bool" where
  "LayoutShiftAnalyzer_isEnabled node_env = (node_env = Some ''development'')"

text \<open>The constructor; \<open>has_observer_api\<close> is \<^verbatim>\<open>typeof window !== 'undefined' && 'PerformanceObserver' in window\<close>.\<close>

definition LayoutShiftAnalyzer_new :: "string option \<Rightarrow> bool \<Rightarrow> observer_setup \<Rightarrow> 'n LayoutShiftAnalyzer" where
  "LayoutShiftAnalyzer_new node_env has_observer_api setup =
     (let s = \<lparr>shifts = [], observer = False, observing = False, layout_console = []\<rparr>
      in if LayoutShiftAnalyzer_isEnabled node_env \<and> has_observer_api
         then initializeObserver setup s else s)"

record element_stats =
  count :: nat
  totalScore :: real

record element_report = element_stats +
  avgScore :: real

text \<open>
  The object \<^verbatim>\<open>elementStats\<close> is a plain object: its own properties are an
  association list in insertion order, the order of \<^verbatim>\<open>Object.entries\<close> for keys that
  are not array indices (a selector starts with a tag name), and a read
  \<^verbatim>\<open>elementStats[selector]\<close> also finds the properties inherited from
  \<^verbatim>\<open>Object.prototype\<close>, which are functions or objects and so are truthy.
\<close>

definition Object_prototype_properties :: "string list" where
  "Object_prototype_properties =
     [''constructor'', ''__defineGetter__'', ''__defineSetter__'', ''hasOwnProperty'',
      ''__lookupGetter__'', ''__lookupSetter__'', ''isPrototypeOf'', ''propertyIsEnumerable'',
      ''toString'', ''valueOf'', ''__proto__'', ''toLocaleString'']"

text \<open>
  One source of one shift in \<^verbatim>\<open>getShiftsByElement\<close>: create the selector's entry
  when \<^verbatim>\<open>!elementStats[selector]\<close>, then \<^verbatim>\<open>count++\<close> and
  \<^verbatim>\<open>totalScore += shift.score\<close>. For a selector that names an inherited property no
  entry is created and the two updates go to the inherited value, so the own properties
  stay as they are.
\<close>

definition add_source :: "real \<Rightarrow> string \<Rightarrow> (string \<times> element_stats) list \<Rightarrow> (string \<times> element_stats) list" where
  "add_source sc selector elementStats =
     (if selector \<in> set Object_prototype_properties then elementStats
      else
        let stats = (case map_of elementStats selector of
                       None \<Rightarrow> \<lparr>count = 0, totalScore = 0\<rparr>
                     | Some st \<Rightarrow> st)
        in AList.update selector \<lparr>count = count stats + 1, totalScore = totalScore stats + sc\<rparr>
             elementStats)"

definition add_shift :: "('n \<Rightarrow> string) \<Rightarrow> 'n LayoutShiftDetail \<Rightarrow> (string \<times> element_stats) list \<Rightarrow> (string \<times> element_stats) list" where
  "add_shift sel shift elementStats =
     fold (\<lambda>source. add_source (score shift) (sel (node source))) (sources shift) elementStats"

definition with_average :: "string \<times> element_stats \<Rightarrow> string \<times> element_report" where
  "with_average p =
     (case p of (selector, stats) \<Rightarrow>
        (selector, \<lparr>count = count stats, totalScore = totalScore stats,
                    avgScore = totalScore stats / real (count stats)\<rparr>))"

definition getShiftsByElement :: "('n \<Rightarrow> string) \<Rightarrow> 'n LayoutShiftAnalyzer \<Rightarrow> (string \<times> element_report) list" where
  "getShiftsByElement sel s = map with_average (fold (add_shift sel) (shifts s) [])"

text \<open>
  \<^verbatim>\<open>printReport()\<close> of the analyzer. \<open>sortedElements\<close> is the stable sort with the
  comparator \<^verbatim>\<open>b.totalScore - a.totalScore\<close>, then \<^verbatim>\<open>slice(0, 10)\<close>;
  \<open>element_marker\<close> is the marker computed for each listed element.
\<close>

definition sortedElements :: "('n \<Rightarrow> string) \<Rightarrow> 'n LayoutShiftAnalyzer \<Rightarrow> (string \<times> element_report) list" where
  "sortedElements sel s = take 10 (sort_key (\<lambda>p. - totalScore (snd p)) (getShiftsByElement sel s))"

definition element_marker :: "element_report \<Rightarrow> color" where
  "element_marker stats =
     (if avgScore stats > 0.1 then Red else if avgScore stats > 0.01 then Yellow else Green)"

definition element_lines :: "nat \<times> string \<times> element_report \<Rightarrow> layout_event list" where
  "element_lines p =
     (case p of (index, selector, stats) \<Rightarrow>
        [ElementLine (index + 1) (element_marker stats) selector,
         ElementStatsLine (count stats) (totalScore stats) (avgScore stats)])"

text \<open>The marker of the total, a double compared with the doubles \<^verbatim>\<open>0.25\<close> and \<^verbatim>\<open>0.1\<close>.\<close>

definition total_color :: "real \<Rightarrow> color" where
  "total_color cls = (if cls > 0.25 then Red else if cls > to_double 0.1 then Yellow else Green)"

definition ls_printReport :: "bool \<Rightarrow> ('n \<Rightarrow> string) \<Rightarrow> real \<Rightarrow> 'n LayoutShiftAnalyzer \<Rightarrow> 'n LayoutShiftAnalyzer" where
  "ls_printReport isEnabled sel now s =
     (if \<not> isEnabled then s
      else
        let cls = getTotalScore now s;
            listed = sortedElements sel s
        in s\<lparr>layout_console := layout_console s @
                [LayoutReportGroup, TotalCls (total_color cls) cls] @
                (if length listed > 0
                 then TopElementsHeader # concat (map element_lines (enumerate 0 listed))
                 else []) @
                [LayoutReportGroupEnd]\<rparr>)"

definition ls_clear :: "'n LayoutShiftAnalyzer \<Rightarrow> 'n LayoutShiftAnalyzer" where
  "ls_clear s = s\<lparr>shifts := []\<rparr>"

definition ls_destroy :: "'n LayoutShiftAnalyzer \<Rightarrow> 'n LayoutShiftAnalyzer" where
  "ls_destroy s = (if observer s then s\<lparr>observer := False, observing := False\<rparr> else s)"

text \<open>
  What can happen to the analyzer during a session: the browser delivers a batch of
  entries (the callback runs only while the observer is subscribed), or one of the
  public methods is called.
\<close>

datatype 'n analyzer_event =
    Deliver "(real \<times> 'n performance_entry) list"
  | PrintReport real
  | Clear
  | Destroy

definition analyzer_step :: "bool \<Rightarrow> ('n \<Rightarrow> string) \<Rightarrow> 'n analyzer_event \<Rightarrow> 'n LayoutShiftAnalyzer \<Rightarrow> 'n LayoutShiftAnalyzer" where
  "analyzer_step isEnabled sel ev s =
     (case ev of
        Deliver batch \<Rightarrow> if observing s then observer_callback sel batch s else s
      | PrintReport now \<Rightarrow> ls_printReport isEnabled sel now s
      | Clear \<Rightarrow> ls_clear s
      | Destroy \<Rightarrow> ls_destroy s)"

text \<open>The analyzer after a session: constructed, then the events in order.\<close>

definition analyzer_session :: "string option \<Rightarrow> bool \<Rightarrow> observer_setup \<Rightarrow> ('n \<Rightarrow> string) \<Rightarrow> 'n analyzer_event list \<Rightarrow> 'n LayoutShiftAnalyzer" where
  "analyzer_session node_env has_observer_api setup sel evs =
     fold (analyzer_step (LayoutShiftAnalyzer_isEnabled node_env) sel) evs
       (LayoutShiftAnalyzer_new node_env has_observer_api setup)"


section \<open>Core-vitals ratings: \<^verbatim>\<open>WebVitalsLogger\<close> in lib/performance/webVitals.ts\<close>

datatype rating = Good | NeedsImprovement | Poor

definition getLCPRating :: "real \<Rightarrow> rating" where
  "getLCPRating v = (if v \<le> 2500 then Good else if v \<le> 4000 then NeedsImprovement else Poor)"

definition getFIDRating :: "real \<Rightarrow> rating" where
  "getFIDRating v = (if v \<le> 100 then Good else if v \<le> 300 then NeedsImprovement else Poor)"

definition getCLSRating :: "real \<Rightarrow> rating" where
  "getCLSRating v = (if v \<le> 0.1 then Good else if v \<le> 0.25 then NeedsImprovement else Poor)"

definition getFCPRating :: "real \<Rightarrow> rating" where
  "getFCPRating v = (if v \<le> 1800 then Good else if v \<le> 3000 then NeedsImprovement else Poor)"

definition getTTFBRating :: "real \<Rightarrow> rating" where
  "getTTFBRating v = (if v \<le> 800 then Good else if v \<le> 1800 then NeedsImprovement else Poor)"


section \<open>Offloaded image processing: foundation/hooks/useWorkerImage.ts\<close>

text \<open>
  The promise of one \<^verbatim>\<open>processImageWithWorker\<close> call is a number; its \<^verbatim>\<open>resolve\<close> and
  \<^verbatim>\<open>reject\<close> act on the table \<open>promises\<close>, where \<open>None\<close> is a promise that is
  still pending. As for every promise, only the first settlement counts.
\<close>

datatype settlement = Resolved string | Rejected string

text \<open>
  A message from the worker: \<open>m_result\<close> is \<open>Inl\<close> of the error text when
  \<^verbatim>\<open>'error' in data\<close>, and \<open>Inr\<close> of the data URL otherwise.
\<close>

record worker_message =
  m_type :: string
  m_cacheKey :: string
  m_result :: "string + string"

text \<open>
  The module state: whether \<^verbatim>\<open>imageWorker\<close> is non-null, the \<^verbatim>\<open>pendingTasks\<close> map
  (cache key to the promise whose \<^verbatim>\<open>resolve\<close> and \<^verbatim>\<open>reject\<close> it holds), the
  promises, the cache keys posted to the worker, and the queue of scheduled timeout
  callbacks (delay in milliseconds, promise, cache key). All delays are equal, so the
  callbacks run in the order they were scheduled.
\<close>

record worker_state =
  imageWorker :: bool
  pendingTasks :: "(string, nat) alist"
  promises :: "nat \<rightharpoonup> settlement"
  next_promise :: nat
  posted :: "string list"
  timers :: "(real \<times> nat \<times> string) list"

definition worker_state_new :: worker_state where
  "worker_state_new = \<lparr>imageWorker = False, pendingTasks = DAList.empty, promises = Map.empty,
                        next_promise = 0, posted = [], timers = []\<rparr>"

definition settle :: "nat \<Rightarrow> settlement \<Rightarrow> worker_state \<Rightarrow> worker_state" where
  "settle p outcome s = (if promises s p = None then s\<lparr>promises := (promises s)(p \<mapsto> outcome)\<rparr> else s)"

text \<open>\<^verbatim>\<open>initWorker()\<close>; \<open>can_create\<close> says whether \<^verbatim>\<open>Worker\<close> exists and is created without an exception.\<close>

definition initWorker :: "bool \<Rightarrow> worker_state \<Rightarrow> worker_state" where
  "initWorker can_create s = (if \<not> imageWorker s \<and> can_create then s\<lparr>imageWorker := True\<rparr> else s)"

text \<open>\<^verbatim>\<open>imageWorker.onmessage\<close>.\<close>

definition onmessage :: "worker_message \<Rightarrow> worker_state \<Rightarrow> worker_state" where
  "onmessage msg s =
     (if m_type msg = ''IMAGE_PROCESSED'' then
        case DAList.lookup (pendingTasks s) (m_cacheKey msg) of
          None \<Rightarrow> s
        | Some task \<Rightarrow>
            let s' = s\<lparr>pendingTasks := DAList.delete (m_cacheKey msg) (pendingTasks s)\<rparr>
            in (case m_result msg of
                  Inl err \<Rightarrow> settle task (Rejected err) s'
                | Inr dataUrl \<Rightarrow> settle task (Resolved dataUrl) s')
      else s)"

text \<open>\<^verbatim>\<open>processImageWithWorker\<close>: the executor of the new promise, which is returned.\<close>

definition processImageWithWorker :: "string \<Rightarrow> worker_state \<Rightarrow> nat \<times> worker_state" where
  "processImageWithWorker cacheKey' s =
     (let p = next_promise s; s' = s\<lparr>next_promise := p + 1\<rparr>
      in if \<not> imageWorker s then (p, settle p (Rejected ''Worker not available'') s')
         else (p, s'\<lparr>pendingTasks := DAList.update cacheKey' p (pendingTasks s),
                     posted := posted s @ [cacheKey'],
                     timers := timers s @ [(10000, p, cacheKey')]\<rparr>))"

text \<open>The callback given to \<^verbatim>\<open>setTimeout\<close> by the call with promise \<open>p\<close> and that cache key.\<close>

definition timeout_callback :: "nat \<Rightarrow> string \<Rightarrow> worker_state \<Rightarrow> worker_state" where
  "timeout_callback p cacheKey' s =
     (if DAList.lookup (pendingTasks s) cacheKey' \<noteq> None
      then settle p (Rejected ''Worker processing timeout'')
             (s\<lparr>pendingTasks := DAList.delete cacheKey' (pendingTasks s)\<rparr>)
      else s)"

text \<open>One turn of the event loop that concerns the registry.\<close>

datatype worker_event =
    InitWorker bool
  | Process string
  | Message worker_message
  | TimerFires

definition worker_step :: "worker_event \<Rightarrow> worker_state \<Rightarrow> worker_state" where
  "worker_step ev s =
     (case ev of
        InitWorker can_create \<Rightarrow> initWorker can_create s
      | Process cacheKey' \<Rightarrow> snd (processImageWithWorker cacheKey' s)
      | Message msg \<Rightarrow> onmessage msg s
      | TimerFires \<Rightarrow>
          (case timers s of
             [] \<Rightarrow> s
           | t # rest \<Rightarrow> timeout_callback (fst (snd t)) (snd (snd t)) (s\<lparr>timers := rest\<rparr>)))"

definition worker_run :: "worker_event list \<Rightarrow> worker_state \<Rightarrow> worker_state" where
  "worker_run evs s = fold worker_step evs s"


subsection \<open>The data-URL cache of \<^verbatim>\<open>useWorkerImage\<close>\<close>

datatype image_format = Jpg | Webp

record image_request =
  imageId :: string
  width :: real
  height :: real
  quality :: real
  format :: image_format

text \<open>
  The template string of the cache key; \<open>number_text\<close> is JavaScript's conversion of a
  number to a string.
\<close>

definition cacheKey :: "(real \<Rightarrow> string) \<Rightarrow> image_request \<Rightarrow> string" where
  "cacheKey number_text r =
     imageId r @ ''-'' @ number_text (width r) @ ''-'' @ number_text (height r) @ ''-'' @
     number_text (quality r) @ ''-'' @ (case format r of Jpg \<Rightarrow> ''jpg'' | Webp \<Rightarrow> ''webp'')"

text \<open>\<^verbatim>\<open>imageCache.keys().next().value\<close>: \<open>None\<close> is \<^verbatim>\<open>undefined\<close>.\<close>

definition firstKey_of :: "(string, string) alist \<Rightarrow> string option" where
  "firstKey_of imageCache = (case DAList.impl_of imageCache of [] \<Rightarrow> None | p # _ \<Rightarrow> Some (fst p))"

text \<open>
  Saving a result (the end of the measured callback): \<^verbatim>\<open>if (firstKey)\<close> holds for a
  key that is defined and not the empty string.
\<close>

definition cache_store :: "string \<Rightarrow> string \<Rightarrow> (string, string) alist \<Rightarrow> (string, string) alist" where
  "cache_store key dataUrl imageCache =
     (let evicted =
            (if size imageCache \<ge> 100 then
               (case firstKey_of imageCache of
                  None \<Rightarrow> imageCache
                | Some firstKey \<Rightarrow>
                    if firstKey \<noteq> [] then DAList.delete firstKey imageCache else imageCache)
             else imageCache)
      in DAList.update key dataUrl evicted)"

text \<open>
  The two ends of the callback of \<^verbatim>\<open>useWorkerImage\<close>: the cache check at its start
  (\<open>Some\<close> is the value returned at once) and, after the image has been processed into
  \<open>dataUrl\<close>, the store at its end. Other callbacks may run in between.
\<close>

definition cache_check :: "(real \<Rightarrow> string) \<Rightarrow> image_request \<Rightarrow> (string, string) alist \<Rightarrow> string option" where
  "cache_check number_text r imageCache = DAList.lookup imageCache (cacheKey number_text r)"

definition cache_save :: "(real \<Rightarrow> string) \<Rightarrow> image_request \<times> string \<Rightarrow> (string, string) alist \<Rightarrow> (string, string) alist" where
  "cache_save number_text p imageCache = cache_store (cacheKey number_text (fst p)) (snd p) imageCache"

text \<open>The cache after the given stores, in order, from the empty cache of module load.\<close>

definition cache_after :: "(real \<Rightarrow> string) \<Rightarrow> (image_request \<times> string) list \<Rightarrow> (string, string) alist" where
  "cache_after number_text saves = fold (cache_save number_text) saves DAList.empty"


section \<open>Concrete inputs and observations used in the examples\<close>

text \<open>A wrapped function that throws \<open>e\<close>, and one that returns \<open>v\<close>, without touching the tracker.\<close>

definition throwing :: "thrown \<Rightarrow> 'a wrapped" where
  "throwing e s = (Inl e, s)"

definition returning :: "'a \<Rightarrow> 'a wrapped" where
  "returning v s = (Inr v, s)"

text \<open>
  The value \<^verbatim>\<open>Object.create(null)\<close>, whose string conversion throws a \<^verbatim>\<open>TypeError\<close>
  (the message is the engine's).
\<close>

definition conversion_TypeError :: thrown where
  "conversion_TypeError = JsError ''Cannot convert object to primitive value''"

definition object_without_prototype :: thrown where
  "object_without_prototype = Unconvertible conversion_TypeError"

text \<open>
  A wrapped asynchronous function during which the tracker is cleared (the overlay's
  Clear button calls \<^verbatim>\<open>clear()\<close>) and whose promise is then rejected with \<open>e\<close>.
\<close>

definition clearing_then_throwing :: "thrown \<Rightarrow> 'a wrapped" where
  "clearing_then_throwing e s = (Inl e, clear s)"

text \<open>What can be observed of a stored record.\<close>

definition completed :: "PerformanceData \<Rightarrow> bool" where
  "completed m = (endTime m \<noteq> None \<and> duration m \<noteq> None)"

definition has_error_metadata :: "PerformanceData \<Rightarrow> bool" where
  "has_error_metadata m = (spread (metadata m) ''error'' \<noteq> None)"

definition stored_metadata :: "PerformanceLogger \<Rightarrow> string \<Rightarrow> metadata option option" where
  "stored_metadata s nm = map_option metadata (DAList.lookup (measurements s) nm)"

text \<open>The tracker after \<^verbatim>\<open>start("x")\<close> at time 0 and \<^verbatim>\<open>end("x")\<close> at time 5.\<close>

definition ended_once :: PerformanceLogger where
  "ended_once = snd (end_op True ''x'' None 5 (start True ''x'' None 0 PerformanceLogger_new))"

text \<open>The enabled tracker running \<^verbatim>\<open>start(name, m1); start(name, m2); end(name, m3)\<close>.\<close>

definition start_start_end ::
  "string \<Rightarrow> metadata option \<Rightarrow> metadata option \<Rightarrow> metadata option \<Rightarrow> real \<Rightarrow> real \<Rightarrow> real \<Rightarrow> PerformanceLogger \<Rightarrow> real option \<times> PerformanceLogger" where
  "start_start_end nm m1 m2 m3 t1 t2 t3 s =
     end_op True nm m3 t3 (start True nm m2 t2 (start True nm m1 t1 s))"

definition meta_a :: metadata where
  "meta_a = [''a'' \<mapsto> JNumber 1]"

definition meta_b :: metadata where
  "meta_b = [''b'' \<mapsto> JNumber 2]"

text \<open>An entry is stored by the observer callback when it is a layout shift without recent input.\<close>

definition stored_by :: "'n performance_entry \<Rightarrow> bool" where
  "stored_by entry = (e_entryType entry = ''layout-shift'' \<and> \<not> e_hadRecentInput entry)"

text \<open>Two layout-shift entries, the first one caused by user input.\<close>

definition input_shift :: "string performance_entry" where
  "input_shift = \<lparr>e_entryType = ''layout-shift'', e_startTime = 10, e_value = 0.2,
                  e_sources = None, e_hadRecentInput = True\<rparr>"

definition plain_shift :: "string performance_entry" where
  "plain_shift = \<lparr>e_entryType = ''layout-shift'', e_startTime = 20, e_value = 0.05,
                  e_sources = None, e_hadRecentInput = False\<rparr>"

text \<open>
  An analyzer that has stored one shift of score 1 at the time \<^verbatim>\<open>0.1\<close>; it is asked
  for the total at the time \<^verbatim>\<open>5000.1\<close>.
\<close>

definition window_edge_analyzer :: "string LayoutShiftAnalyzer" where
  "window_edge_analyzer =
     \<lparr>shifts = [\<lparr>score = 1, timestamp = to_double 0.1, sources = [], hadRecentInput = False\<rparr>],
      observer = True, observing = True, layout_console = []\<rparr>"

text \<open>
  An analyzer that has stored one shift of score 0.1 with one source, an element whose
  selector is \<^verbatim>\<open>div\<close>.
\<close>

definition boundary_analyzer :: "string LayoutShiftAnalyzer" where
  "boundary_analyzer =
     \<lparr>shifts = [\<lparr>score = 0.1, timestamp = 100,
                  sources = [\<lparr>node = ''div'', currentRect = (0, 10, 5, 5),
                              previousRect = (0, 0, 5, 5)\<rparr>],
                  hadRecentInput = False\<rparr>],
      observer = True, observing = True, layout_console = []\<rparr>"

text \<open>
  Two calls of \<^verbatim>\<open>processImageWithWorker\<close> with the same cache key while the worker
  is available, no reply from the worker, and both timeouts firing.
\<close>

definition duplicate_key_trace :: "worker_event list" where
  "duplicate_key_trace = [InitWorker True, Process ''k'', Process ''k'', TimerFires, TimerFires]"

text \<open>
  Promise \<open>p\<close> has been created and is pending, and neither the registry nor a
  scheduled timeout refers to it.
\<close>

definition orphaned :: "nat \<Rightarrow> worker_state \<Rightarrow> bool" where
  "orphaned p s =
     (promises s p = None \<and> p < next_promise s
      \<and> p \<notin> snd ` set (DAList.impl_of (pendingTasks s))
      \<and> p \<notin> set (map (\<lambda>t. fst (snd t)) (timers s)))"


section \<open>Double-precision arithmetic: results\<close>

subsection \<open>The binade of a positive number\<close>

lemma bitlen_pos: "0 < m \<Longrightarrow> 1 \<le> bitlen m"
  using bitlen_eq_zero_iff [of m] bitlen_nonneg [of m] by linarith

lemma binade_bounds_ge1:
  assumes "1 \<le> x"
  shows "2 powi binade x \<le> x \<and> x < 2 powi (binade x + 1)"
proof -
  define n where "n = \<lfloor>x\<rfloor>"
  have npos: "0 < n" using assms by (simp add: n_def)
  have k: "1 \<le> bitlen n" using npos by (rule bitlen_pos)
  have b: "2 ^ nat (bitlen n - 1) \<le> n \<and> n < 2 ^ nat (bitlen n)"
    using npos by (rule bitlen_bounds)
  have lo: "(2::real) ^ nat (bitlen n - 1) \<le> of_int n"
    using b by (metis of_int_le_iff of_int_numeral of_int_power)
  have "n + 1 \<le> 2 ^ nat (bitlen n)" using b by linarith
  then have hi: "of_int (n + 1) \<le> (2::real) ^ nat (bitlen n)"
    by (metis of_int_le_iff of_int_numeral of_int_power)
  have "of_int n \<le> x" "x < of_int (n + 1)"
    by (simp_all add: n_def)
  then have "(2::real) ^ nat (bitlen n - 1) \<le> x \<and> x < 2 ^ nat (bitlen n)"
    using lo hi by linarith
  moreover have "binade x = bitlen n - 1"
    using assms by (simp add: binade_def n_def)
  ultimately show ?thesis
    using k by (simp add: power_int_nonneg_exp)
qed

lemma binade_bounds_lt1:
  assumes "0 < x" "x < 1"
  shows "2 powi binade x \<le> x \<and> x < 2 powi (binade x + 1)"
proof -
  define m where "m = \<lceil>1 / x\<rceil> - 1"
  have inv: "1 < 1 / x" using assms by simp
  then have "2 \<le> \<lceil>1 / x\<rceil>" by linarith
  then have mpos: "0 < m" by (simp add: m_def)
  have k: "1 \<le> bitlen m" using mpos by (rule bitlen_pos)
  have b: "2 ^ nat (bitlen m - 1) \<le> m \<and> m < 2 ^ nat (bitlen m)"
    using mpos by (rule bitlen_bounds)
  have lo: "(2::real) ^ nat (bitlen m - 1) \<le> of_int m"
    using b by (metis of_int_le_iff of_int_numeral of_int_power)
  have "m + 1 \<le> 2 ^ nat (bitlen m)" using b by linarith
  then have hi: "of_int (m + 1) \<le> (2::real) ^ nat (bitlen m)"
    by (metis of_int_le_iff of_int_numeral of_int_power)
  have "of_int m < 1 / x"
    unfolding m_def by linarith
  moreover have "1 / x \<le> of_int (m + 1)"
    unfolding m_def by linarith
  ultimately have "of_int m < 1 / x \<and> 1 / x \<le> of_int (m + 1)"
    by simp
  then have bnd: "(2::real) ^ nat (bitlen m - 1) < 1 / x" "1 / x \<le> 2 ^ nat (bitlen m)"
    using lo hi by linarith+
  have up: "x < 1 / 2 ^ nat (bitlen m - 1)"
    using bnd(1) assms(1) by (simp add: field_simps)
  have down: "1 / 2 ^ nat (bitlen m) \<le> x"
    using bnd(2) assms(1) by (simp add: field_simps)
  have e: "binade x = - bitlen m"
    using assms by (simp add: binade_def m_def)
  have p1: "(2::real) powi (- bitlen m) = 1 / 2 ^ nat (bitlen m)"
    using k by (simp add: power_int_minus_divide power_int_nonneg_exp)
  have "- bitlen m + 1 = - (bitlen m - 1)" by simp
  then have p2: "(2::real) powi (- bitlen m + 1) = 1 / 2 ^ nat (bitlen m - 1)"
    using k by (simp only: power_int_minus_divide) (simp add: power_int_nonneg_exp)
  show ?thesis
    using up down by (simp only: e p1 p2)
qed

lemma binade_bounds:
  "0 < x \<Longrightarrow> 2 powi binade x \<le> x \<and> x < 2 powi (binade x + 1)"
  using binade_bounds_ge1 [of x] binade_bounds_lt1 [of x] by (cases "1 \<le> x") auto

lemma binade_unique:
  assumes "0 < x" "2 powi b \<le> x" "x < 2 powi (b + 1)"
  shows "binade x = b"
proof (rule antisym)
  have "(2::real) powi binade x < 2 powi (b + 1)"
    using binade_bounds [OF assms(1)] assms(3) by linarith
  then have "binade x < b + 1"
    by (metis power_int_increasing not_less one_le_numeral)
  then show "binade x \<le> b" by simp
next
  have "(2::real) powi b < 2 powi (binade x + 1)"
    using binade_bounds [OF assms(1)] assms(2) by linarith
  then have "b < binade x + 1"
    by (metis power_int_increasing not_less one_le_numeral)
  then show "b \<le> binade x" by simp
qed

lemma round_half_even_le: "y \<le> of_int k \<Longrightarrow> round_half_even y \<le> k"
proof -
  assume a: "y \<le> of_int k"
  have f: "\<lfloor>y\<rfloor> \<le> k" using a by linarith
  have "y - of_int \<lfloor>y\<rfloor> > 0 \<Longrightarrow> \<lfloor>y\<rfloor> + 1 \<le> k" using a by linarith
  then show ?thesis
    using f unfolding round_half_even_def Let_def by auto
qed

lemma round_half_even_ge: "of_int k \<le> y \<Longrightarrow> k \<le> round_half_even y"
proof -
  assume a: "of_int k \<le> y"
  have f: "k \<le> \<lfloor>y\<rfloor>" using a by linarith
  then show ?thesis
    unfolding round_half_even_def Let_def by auto
qed

subsection \<open>Rounding stays between the neighbouring doubles\<close>

lemma to_double_grid_le:
  assumes "x \<le> of_int k * 2 powi ulp_exponent x"
  shows "to_double x \<le> of_int k * 2 powi ulp_exponent x"
proof (cases "x = 0")
  case True
  then show ?thesis using assms by (simp add: to_double_def)
next
  case False
  have u: "(0::real) < 2 powi ulp_exponent x" by simp
  have "x / 2 powi ulp_exponent x \<le> of_int k"
    using assms u by (simp add: field_simps)
  then have "round_half_even (x / 2 powi ulp_exponent x) \<le> k"
    by (rule round_half_even_le)
  then have "real_of_int (round_half_even (x / 2 powi ulp_exponent x)) \<le> of_int k"
    by simp
  then show ?thesis
    using False u by (simp add: to_double_def)
qed

lemma to_double_grid_ge:
  assumes "of_int k * 2 powi ulp_exponent x \<le> x"
  shows "of_int k * 2 powi ulp_exponent x \<le> to_double x"
proof (cases "x = 0")
  case True
  then show ?thesis using assms by (simp add: to_double_def)
next
  case False
  have u: "(0::real) < 2 powi ulp_exponent x" by simp
  have "of_int k \<le> x / 2 powi ulp_exponent x"
    using assms u by (simp add: field_simps)
  then have "k \<le> round_half_even (x / 2 powi ulp_exponent x)"
    by (rule round_half_even_ge)
  then have "real_of_int k \<le> of_int (round_half_even (x / 2 powi ulp_exponent x))"
    by simp
  then show ?thesis
    using False u by (simp add: to_double_def)
qed

text \<open>A power of two at or above the unit in the last place is on the grid.\<close>

lemma pow2_on_grid:
  assumes "e \<le> n"
  shows "(2::real) powi n = of_int (2 ^ nat (n - e)) * 2 powi e"
proof -
  have "(2::real) powi n = 2 powi (n - e) * 2 powi e"
    by (simp flip: power_int_add)
  also have "(2::real) powi (n - e) = 2 ^ nat (n - e)"
    using assms by (simp add: power_int_nonneg_exp)
  finally show ?thesis by simp
qed

lemma to_double_nonpos: "x \<le> 0 \<Longrightarrow> to_double x \<le> 0"
  using to_double_grid_le [of x 0] by simp

lemma to_double_nonneg: "0 \<le> x \<Longrightarrow> 0 \<le> to_double x"
  using to_double_grid_ge [of 0 x] by simp

lemma to_double_below_4096:
  assumes "0 < x" "x < 4096"
  shows "to_double x \<le> 4096"
proof -
  have "(2::real) powi binade x < 2 powi 12"
    using binade_bounds [OF assms(1)] assms(2) by simp
  then have "binade x < 12"
    by (metis power_int_increasing not_less one_le_numeral)
  then have e: "ulp_exponent x \<le> 12"
    using assms(1) by (simp add: ulp_exponent_def)
  have "(4096::real) = 2 powi 12" by simp
  also have "\<dots> = of_int (2 ^ nat (12 - ulp_exponent x)) * 2 powi ulp_exponent x"
    using e by (rule pow2_on_grid)
  finally have g: "(4096::real) = of_int (2 ^ nat (12 - ulp_exponent x)) * 2 powi ulp_exponent x" .
  have "x \<le> of_int (2 ^ nat (12 - ulp_exponent x)) * 2 powi ulp_exponent x"
    using assms(2) g by linarith
  then have "to_double x \<le> of_int (2 ^ nat (12 - ulp_exponent x)) * 2 powi ulp_exponent x"
    by (rule to_double_grid_le)
  then show ?thesis using g by linarith
qed

lemma to_double_above_8192:
  assumes "8192 \<le> x"
  shows "8192 \<le> to_double x"
proof -
  have pos: "0 < x" using assms by simp
  have "(2::real) powi 13 < 2 powi (binade x + 1)"
    using binade_bounds [OF pos] assms by simp
  then have "13 < binade x + 1"
    by (metis power_int_increasing not_less one_le_numeral)
  then have b: "13 \<le> binade x" by simp
  then have e: "ulp_exponent x \<le> binade x"
    using pos by (simp add: ulp_exponent_def)
  have g: "(2::real) powi binade x = of_int (2 ^ nat (binade x - ulp_exponent x)) * 2 powi ulp_exponent x"
    using e by (rule pow2_on_grid)
  have "of_int (2 ^ nat (binade x - ulp_exponent x)) * 2 powi ulp_exponent x \<le> x"
    using binade_bounds [OF pos] g by linarith
  then have "of_int (2 ^ nat (binade x - ulp_exponent x)) * 2 powi ulp_exponent x \<le> to_double x"
    by (rule to_double_grid_ge)
  then have "(2::real) powi binade x \<le> to_double x" using g by linarith
  moreover have "(2::real) powi 13 \<le> 2 powi binade x"
    using b by (intro power_int_increasing) simp_all
  ultimately show ?thesis by simp
qed

subsection \<open>Which numbers round to at most 5000\<close>

lemma round_half_even_le_even:
  assumes "even n"
  shows "round_half_even y \<le> n \<longleftrightarrow> y \<le> of_int n + 1 / 2"
proof
  assume r: "round_half_even y \<le> n"
  show "y \<le> of_int n + 1 / 2"
  proof (rule ccontr)
    assume "\<not> y \<le> of_int n + 1 / 2"
    then have gt: "of_int n + 1 / 2 < y" by simp
    then have f: "n \<le> \<lfloor>y\<rfloor>" by linarith
    have "n + 1 \<le> round_half_even y"
    proof (cases "\<lfloor>y\<rfloor> = n")
      case True
      then have "1 / 2 < y - of_int \<lfloor>y\<rfloor>" using gt by simp
      then show ?thesis
        using True by (simp add: round_half_even_def Let_def)
    next
      case False
      then have "n + 1 \<le> \<lfloor>y\<rfloor>" using f by simp
      then have "of_int (n + 1) \<le> y" by linarith
      then show ?thesis by (rule round_half_even_ge)
    qed
    then show False using r by simp
  qed
next
  assume le: "y \<le> of_int n + 1 / 2"
  show "round_half_even y \<le> n"
  proof (cases "y \<le> of_int n")
    case True
    then show ?thesis by (rule round_half_even_le)
  next
    case False
    then have "of_int n < y" by simp
    then have f: "\<lfloor>y\<rfloor> = n" using le by linarith
    then have "y - of_int \<lfloor>y\<rfloor> \<le> 1 / 2" using le by simp
    then show ?thesis
      using f assms by (auto simp: round_half_even_def Let_def)
  qed
qed

lemma to_double_binade_12:
  assumes "4096 \<le> x" "x < 8192"
  shows "to_double x = of_int (round_half_even (x * 1099511627776)) / 1099511627776"
proof -
  have pos: "0 < x" using assms by simp
  have "binade x = 12"
    using pos assms by (intro binade_unique) simp_all
  then have "ulp_exponent x = - 40"
    using pos by (simp add: ulp_exponent_def)
  then show ?thesis
    using pos by (simp add: to_double_def power_int_minus_divide)
qed

lemma to_double_le_5000_iff:
  "to_double x \<le> 5000 \<longleftrightarrow> x \<le> 5000 + 1 / 2 ^ 41"
proof -
  consider "x \<le> 0" | "0 < x \<and> x < 4096" | "4096 \<le> x \<and> x < 8192" | "8192 \<le> x"
    by linarith
  then show ?thesis
  proof cases
    case 1
    then show ?thesis using to_double_nonpos [of x] by simp
  next
    case 2
    then show ?thesis using to_double_below_4096 [of x] by simp
  next
    case 3
    have "to_double x \<le> 5000
            \<longleftrightarrow> round_half_even (x * 1099511627776) \<le> 5497558138880000"
      using 3 by (simp add: to_double_binade_12 field_simps)
    also have "\<dots> \<longleftrightarrow> x * 1099511627776 \<le> of_int 5497558138880000 + 1 / 2"
      by (rule round_half_even_le_even) simp
    also have "\<dots> \<longleftrightarrow> x \<le> 5000 + 1 / 2 ^ 41"
      by (simp add: field_simps)
    finally show ?thesis .
  next
    case 4
    then show ?thesis using to_double_above_8192 [of x] by simp
  qed
qed

subsection \<open>Some doubles\<close>

lemma to_double_in_binade:
  assumes "x \<noteq> 0" "2 powi b \<le> \<bar>x\<bar>" "\<bar>x\<bar> < 2 powi (b + 1)" "- 1022 \<le> b"
  shows "to_double x = of_int (round_half_even (x / 2 powi (b - 52))) * 2 powi (b - 52)"
proof -
  have "binade \<bar>x\<bar> = b"
    using assms by (intro binade_unique) simp_all
  then have "ulp_exponent x = b - 52"
    using assms(4) by (simp add: ulp_exponent_def)
  then show ?thesis
    using assms(1) by (simp add: to_double_def)
qed

lemma to_double_on_grid:
  assumes "x = of_int k * 2 powi ulp_exponent x"
  shows "to_double x = x"
  using to_double_grid_le [of x k] to_double_grid_ge [of k x] assms by simp

lemma to_double_one_tenth: "to_double 0.1 = 3602879701896397 / 36028797018963968"
proof -
  have "to_double 0.1 = of_int (round_half_even (0.1 / 2 powi (- 4 - 52))) * 2 powi (- 4 - 52)"
    by (rule to_double_in_binade) simp_all
  also have "\<dots> = 3602879701896397 / 36028797018963968"
    by (simp add: round_half_even_def Let_def)
  finally show ?thesis .
qed

lemma to_double_5000_1: "to_double 5000.1 = 2748834045021389 / 549755813888"
proof -
  have "to_double 5000.1 = of_int (round_half_even (5000.1 / 2 powi (12 - 52))) * 2 powi (12 - 52)"
    by (rule to_double_in_binade) simp_all
  also have "\<dots> = 2748834045021389 / 549755813888"
    by (simp add: round_half_even_def Let_def)
  finally show ?thesis .
qed

lemma to_double_1: "to_double 1 = 1"
proof -
  have "to_double 1 = of_int (round_half_even (1 / 2 powi (0 - 52))) * 2 powi (0 - 52)"
    by (rule to_double_in_binade) simp_all
  also have "\<dots> = 1"
    by (simp add: round_half_even_def Let_def)
  finally show ?thesis .
qed


section \<open>Named-interval tracker: results\<close>

subsection \<open>The tracker when it is disabled\<close>

text \<open>
  In every mode other than development the tracker is disabled, and then \<^verbatim>\<open>start\<close>
  records and logs nothing, \<^verbatim>\<open>end\<close> returns null and changes nothing,
  \<^verbatim>\<open>printReport\<close> prints nothing, and \<^verbatim>\<open>measure\<close> and \<^verbatim>\<open>measureAsync\<close> behave
  exactly as the wrapped function itself whenever that function returns, or throws a
  value whose error text can be computed.
\<close>

lemma disabled_tracker_no_op:
  assumes "node_env \<noteq> Some ''development''"
  shows "start (PerformanceLogger_isEnabled node_env) nm md now s = s
       \<and> end_op (PerformanceLogger_isEnabled node_env) nm md now s = (None, s)
       \<and> printReport (PerformanceLogger_isEnabled node_env) s = s"
  using assms
  by (simp add: PerformanceLogger_isEnabled_def start_def end_op_def printReport_def)

lemma disabled_measure_returns:
  assumes "node_env \<noteq> Some ''development''" and "fn s = (Inr result, s')"
  shows "measure_op (PerformanceLogger_isEnabled node_env) nm fn md t0 t1 s = fn s
       \<and> measureAsync (PerformanceLogger_isEnabled node_env) nm fn md t0 t1 s = fn s"
  using assms
  by (simp add: PerformanceLogger_isEnabled_def measure_op_def measureAsync_def start_def
        end_op_def)

lemma disabled_measure_rethrows:
  assumes "node_env \<noteq> Some ''development''" and "fn s = (Inl E, s')"
      and "error_text E = Inr txt"
  shows "measure_op (PerformanceLogger_isEnabled node_env) nm fn md t0 t1 s = fn s
       \<and> measureAsync (PerformanceLogger_isEnabled node_env) nm fn md t0 t1 s = fn s"
  using assms
  by (simp add: PerformanceLogger_isEnabled_def measure_op_def measureAsync_def start_def
        end_op_def)

text \<open>
  Claim C3 on the code. In production mode \<^verbatim>\<open>measure("op", fn)\<close> with \<^verbatim>\<open>fn\<close>
  throwing \<^verbatim>\<open>Object.create(null)\<close> does not propagate the thrown object: the
  \<^verbatim>\<open>catch\<close> block evaluates \<^verbatim>\<open>String(error)\<close> for the argument of \<^verbatim>\<open>end\<close>, also
  when the tracker is disabled, and the \<^verbatim>\<open>TypeError\<close> of that conversion reaches the
  caller in place of the object; \<^verbatim>\<open>measureAsync\<close> rejects with the \<^verbatim>\<open>TypeError\<close>
  likewise. Called directly, \<^verbatim>\<open>fn\<close> throws the object.
\<close>

theorem disabled_measure_replaces_thrown_object:
  "throwing object_without_prototype PerformanceLogger_new
     = (Inl object_without_prototype :: thrown + nat, PerformanceLogger_new)
   \<and> measure_op (PerformanceLogger_isEnabled (Some ''production'')) ''op''
         (throwing object_without_prototype) None 1 2 PerformanceLogger_new
       = (Inl conversion_TypeError :: thrown + nat, PerformanceLogger_new)
   \<and> measureAsync (PerformanceLogger_isEnabled (Some ''production'')) ''op''
         (throwing object_without_prototype) None 1 2 PerformanceLogger_new
       = (Inl conversion_TypeError :: thrown + nat, PerformanceLogger_new)
   \<and> conversion_TypeError \<noteq> object_without_prototype"
  by (simp add: measure_op_def measureAsync_def throwing_def start_def error_text_def
        PerformanceLogger_isEnabled_def object_without_prototype_def conversion_TypeError_def)

subsection \<open>What \<^verbatim>\<open>end\<close> does when it finds a record\<close>

lemma end_op_found:
  assumes "DAList.lookup (measurements s) nm = Some r"
  shows "end_op True nm md now s =
           (Some (now - startTime r),
            s\<lparr>measurements :=
                 DAList.update nm (r\<lparr>endTime := Some now, duration := Some (now - startTime r)\<rparr>)
                   (measurements s),
              console := console s @
                 [Finished (duration_color (now - startTime r)) nm (now - startTime r)
                    (spread (metadata r) ++ spread md)]\<rparr>)"
  using assms by (simp add: end_op_def Let_def)

subsection \<open>A wrapped function that throws\<close>

lemma end_op_not_found:
  assumes "DAList.lookup (measurements s) nm = None"
  shows "end_op True nm md now s = (None, s\<lparr>console := console s @ [NoMeasurement nm]\<rparr>)"
  using assms by (simp add: end_op_def)

text \<open>
  Claim C1, as the code has it. With the tracker enabled, when \<^verbatim>\<open>fn\<close> throws a value
  \<open>E\<close> whose error text can be computed, \<^verbatim>\<open>measure\<close> re-raises exactly \<open>E\<close>, and
  \<^verbatim>\<open>measureAsync\<close> rejects with exactly \<open>E\<close> and leaves the same state. If \<^verbatim>\<open>fn\<close>
  has left a record for the name, that record is completed: its end time and duration
  are set and nothing else of it changes, so its stored metadata is the metadata it
  had, and the error text goes to the emitted log line only, merged over the record's
  metadata. If \<^verbatim>\<open>fn\<close> has left no record for the name (the tracker was cleared
  meanwhile), only the warning is emitted and no record for the name exists.
\<close>

theorem measure_rethrows_and_completes:
  assumes thrown: "fn (start True nm md t0 s) = (Inl E, s')"
      and readable: "error_text E = Inr txt"
  shows "fst (measure_op True nm fn md t0 t1 s) = Inl E
       \<and> fst (measureAsync True nm fn md t0 t1 s) = Inl E
       \<and> snd (measureAsync True nm fn md t0 t1 s) = snd (measure_op True nm fn md t0 t1 s)
       \<and> snd (measure_op True nm fn md t0 t1 s)
           = (case DAList.lookup (measurements s') nm of
                None \<Rightarrow> s'\<lparr>console := console s' @ [NoMeasurement nm]\<rparr>
              | Some r \<Rightarrow>
                  s'\<lparr>measurements :=
                        DAList.update nm (r\<lparr>endTime := Some t1, duration := Some (t1 - startTime r)\<rparr>)
                          (measurements s'),
                      console := console s' @
                        [Finished (duration_color (t1 - startTime r)) nm (t1 - startTime r)
                           ((spread (metadata r))(''error'' \<mapsto> JString txt))]\<rparr>)
       \<and> DAList.lookup (measurements (snd (measure_op True nm fn md t0 t1 s))) nm
           = map_option (\<lambda>r. r\<lparr>endTime := Some t1, duration := Some (t1 - startTime r)\<rparr>)
               (DAList.lookup (measurements s') nm)
       \<and> stored_metadata (snd (measure_op True nm fn md t0 t1 s)) nm = stored_metadata s' nm"
proof -
  have sync: "measure_op True nm fn md t0 t1 s
                = (Inl E, snd (end_op True nm (Some [''error'' \<mapsto> JString txt]) t1 s'))"
    using thrown readable by (simp add: measure_op_def)
  have async: "measureAsync True nm fn md t0 t1 s
                = (Inl E, snd (end_op True nm (Some [''error'' \<mapsto> JString txt]) t1 s'))"
    using thrown readable by (simp add: measureAsync_def)
  show ?thesis
  proof (cases "DAList.lookup (measurements s') nm")
    case None
    then show ?thesis
      by (simp add: sync async end_op_not_found stored_metadata_def)
  next
    case (Some r)
    then show ?thesis
      by (simp add: sync async end_op_found stored_metadata_def spread_def)
  qed
qed

text \<open>
  On the fresh tracker, a function that throws the string \<^verbatim>\<open>failed\<close>: the record keeps
  the metadata given to \<^verbatim>\<open>measure\<close>, the log line carries the error.
\<close>

theorem measure_rethrows_and_completes_witness:
  "error_text (NonError ''failed'') = Inr ''failed''
   \<and> fst (measure_op True ''op'' (throwing (NonError ''failed'') :: nat wrapped)
          (Some [''id'' \<mapsto> JNumber 3]) 0 5 PerformanceLogger_new)
     = Inl (NonError ''failed'')
   \<and> DAList.lookup (measurements (snd (measure_op True ''op'' (throwing (NonError ''failed'') :: nat wrapped)
          (Some [''id'' \<mapsto> JNumber 3]) 0 5 PerformanceLogger_new))) ''op''
     = Some \<lparr>name = ''op'', startTime = 0, endTime = Some 5, duration = Some 5,
             metadata = Some [''id'' \<mapsto> JNumber 3]\<rparr>
   \<and> console (snd (measure_op True ''op'' (throwing (NonError ''failed'') :: nat wrapped)
          (Some [''id'' \<mapsto> JNumber 3]) 0 5 PerformanceLogger_new))
     = [Started ''op'' (Some [''id'' \<mapsto> JNumber 3]),
        Finished Green ''op'' 5 [''id'' \<mapsto> JNumber 3, ''error'' \<mapsto> JString ''failed'']]"
proof -
  have h1: "(throwing (NonError ''failed'') :: nat wrapped)
              (start True ''op'' (Some [''id'' \<mapsto> JNumber 3]) 0 PerformanceLogger_new)
            = (Inl (NonError ''failed''),
               start True ''op'' (Some [''id'' \<mapsto> JNumber 3]) 0 PerformanceLogger_new)"
    by (simp add: throwing_def)
  have h2: "error_text (NonError ''failed'') = Inr ''failed''"
    by (simp add: error_text_def)
  show ?thesis
    using h2 measure_rethrows_and_completes
            [where fn = "throwing (NonError ''failed'') :: nat wrapped" and nm = "''op''"
               and md = "Some [''id'' \<mapsto> JNumber 3]" and ?t0.0 = 0 and s = PerformanceLogger_new
               and ?t1.0 = 5, OF h1 h2]
    by (simp add: start_def PerformanceLogger_new_def duration_color_def spread_def)
qed

text \<open>
  Claim C1 as stated fails: after \<^verbatim>\<open>measure("op", fn)\<close> with \<^verbatim>\<open>fn\<close> throwing
  \<^verbatim>\<open>new Error("boom")\<close>, the error is re-raised and the record is completed, but the
  record carries no error metadata. And when the tracker is cleared while the wrapped
  function runs, no record for the name is left at all.
\<close>

theorem measure_error_metadata_counterexample:
  "fst (measure_op True ''op'' (throwing (JsError ''boom'') :: nat wrapped) None 0 5 PerformanceLogger_new)
     = Inl (JsError ''boom'')
   \<and> map_option completed
        (DAList.lookup (measurements (snd (measure_op True ''op''
           (throwing (JsError ''boom'') :: nat wrapped) None 0 5 PerformanceLogger_new))) ''op'')
     = Some True
   \<and> map_option has_error_metadata
        (DAList.lookup (measurements (snd (measure_op True ''op''
           (throwing (JsError ''boom'') :: nat wrapped) None 0 5 PerformanceLogger_new))) ''op'')
     = Some False
   \<and> DAList.lookup (measurements (snd (measureAsync True ''op''
           (clearing_then_throwing (JsError ''boom'') :: nat wrapped) None 0 5 PerformanceLogger_new))) ''op''
     = None"
  by (simp add: measure_op_def measureAsync_def throwing_def clearing_then_throwing_def clear_def
        start_def end_op_def PerformanceLogger_new_def has_error_metadata_def completed_def
        spread_def error_text_def)

subsection \<open>\<^verbatim>\<open>end\<close> without a record\<close>

text \<open>
  Claim C2, as the code has it. With the tracker enabled, \<^verbatim>\<open>end(name)\<close> when the map
  holds no record for the name (never started, or cleared since) returns null, emits
  the warning, and leaves the records as they are.
\<close>

theorem end_without_record_warns:
  assumes "DAList.lookup (measurements s) nm = None"
  shows "fst (end_op True nm md now s) = None
       \<and> measurements (snd (end_op True nm md now s)) = measurements s
       \<and> console (snd (end_op True nm md now s)) = console s @ [NoMeasurement nm]"
  using assms by (simp add: end_op_def)

theorem end_without_record_warns_witness:
  "DAList.lookup (measurements PerformanceLogger_new) ''x'' = None
   \<and> end_op True ''x'' None 3 PerformanceLogger_new
       = (None, \<lparr>measurements = DAList.empty, console = [NoMeasurement ''x'']\<rparr>)"
proof -
  have h: "DAList.lookup (measurements PerformanceLogger_new) ''x'' = None"
    by (simp add: PerformanceLogger_new_def)
  show ?thesis
    using h end_without_record_warns [OF h, of None 3]
    by (simp add: PerformanceLogger_new_def prod_eq_iff)
qed

text \<open>
  Claim C2 as stated fails for a record that is already completed: after
  \<^verbatim>\<open>start("x")\<close> at 0 and \<^verbatim>\<open>end("x")\<close> at 5 the record is completed, and a second
  \<^verbatim>\<open>end("x")\<close> at 9 returns 9, overwrites the duration 5 by 9, and warns nothing.
\<close>

theorem end_on_completed_record_counterexample:
  "map_option completed (DAList.lookup (measurements ended_once) ''x'') = Some True
   \<and> fst (end_op True ''x'' None 9 ended_once) = Some 9
   \<and> map_option duration (DAList.lookup (measurements ended_once) ''x'') = Some (Some 5)
   \<and> map_option duration
        (DAList.lookup (measurements (snd (end_op True ''x'' None 9 ended_once))) ''x'') = Some (Some 9)
   \<and> NoMeasurement ''x'' \<notin> set (console (snd (end_op True ''x'' None 9 ended_once)))"
  by (simp add: ended_once_def start_def end_op_def PerformanceLogger_new_def completed_def)

subsection \<open>Starting a name twice\<close>

lemma update_one_entry:
  "distinct (map fst al) \<Longrightarrow> length (filter (\<lambda>p. fst p = k) (AList.update k v al)) = 1"
proof (induction al)
  case Nil
  then show ?case by simp
next
  case (Cons p al)
  then show ?case
    by (cases "fst p = k") (auto simp: filter_empty_conv image_iff)
qed

lemma alist_update_one_entry:
  "length (filter (\<lambda>p. fst p = k) (DAList.impl_of (DAList.update k v m))) = 1"
  by (simp add: DAList.update.rep_eq update_one_entry)

text \<open>
  Claim C7, as the code has it. On the enabled tracker,
  \<^verbatim>\<open>start(name, m1); start(name, m2); end(name, m3)\<close> at the times \<open>t1\<close>, \<open>t2\<close>,
  \<open>t3\<close> returns \<open>t3 - t2\<close> and leaves exactly one entry for the name: the record
  started at \<open>t2\<close>, completed with end time \<open>t3\<close> and duration \<open>t3 - t2\<close>, whose
  stored metadata is \<open>m2\<close>. The metadata \<open>m2\<close> merged with \<open>m3\<close> is the argument of
  the log line.
\<close>

theorem last_start_wins:
  "fst (start_start_end nm m1 m2 m3 t1 t2 t3 s) = Some (t3 - t2)
   \<and> DAList.lookup (measurements (snd (start_start_end nm m1 m2 m3 t1 t2 t3 s))) nm
       = Some \<lparr>name = nm, startTime = t2, endTime = Some t3, duration = Some (t3 - t2), metadata = m2\<rparr>
   \<and> length (filter (\<lambda>p. fst p = nm)
        (DAList.impl_of (measurements (snd (start_start_end nm m1 m2 m3 t1 t2 t3 s))))) = 1
   \<and> console (snd (start_start_end nm m1 m2 m3 t1 t2 t3 s))
       = console s @ [Started nm m1, Started nm m2,
                      Finished (duration_color (t3 - t2)) nm (t3 - t2) (spread m2 ++ spread m3)]"
  by (simp add: start_start_end_def start_def end_op_def alist_update_one_entry Let_def)

text \<open>
  Claim C7 as stated fails: with \<open>m2 = {a: 1}\<close> and \<open>m3 = {b: 2}\<close> the record stores
  \<open>m2\<close>, which is not \<open>m2\<close> merged with \<open>m3\<close>.
\<close>

theorem merged_metadata_not_stored_counterexample:
  "stored_metadata (snd (start_start_end ''x'' None (Some meta_a) (Some meta_b) 0 1 2
       PerformanceLogger_new)) ''x''
     = Some (Some meta_a)
   \<and> meta_a \<noteq> meta_a ++ meta_b"
proof -
  have "(meta_a ++ meta_b) ''b'' \<noteq> meta_a ''b''"
    by (simp add: meta_a_def meta_b_def)
  then have "meta_a \<noteq> meta_a ++ meta_b" by metis
  then show ?thesis
    by (simp add: stored_metadata_def start_start_end_def start_def end_op_def Let_def)
qed


section \<open>Layout-stability analyzer: results\<close>

subsection \<open>The windowed total score\<close>

lemma shifts_logLayoutShift: "shifts (logLayoutShift sel now detail s) = shifts s"
  by (simp add: logLayoutShift_def Let_def)

lemma shifts_ls_printReport: "shifts (ls_printReport en sel now s) = shifts s"
  by (simp add: ls_printReport_def Let_def)

lemma in_window_iff:
  "double_sub now t \<le> 5000 \<longleftrightarrow> now - t \<le> 5000 + 1 / 2 ^ 41"
  by (simp add: double_sub_def to_double_le_5000_iff)

lemma getTotalScore_exact_window:
  "getTotalScore now s
     = foldl double_add 0
         (map score (filter (\<lambda>shift. now - timestamp shift \<le> 5000 + 1 / 2 ^ 41) (shifts s)))"
  by (simp add: getTotalScore_def in_window_iff foldl_map)

text \<open>
  Claim C4, as the code has it. \<^verbatim>\<open>getTotalScore()\<close> called at time \<open>now\<close> adds up,
  from 0, from left to right and in double arithmetic, the scores of exactly the stored
  records whose age \<open>now - timestamp\<close>, as the double subtraction rounds it, is at most
  5000. These are exactly the records whose exact age is at most \<open>5000 + 2 ^ - 41\<close>:
  a record older than that is excluded, and a record older than 5000 by no more than
  \<open>2 ^ - 41\<close> is still counted. The value depends on the clock reading and the whole
  stored sequence only (a record appended later is added last when it is in the
  window), and the computation removes nothing: \<^verbatim>\<open>getTotalScore\<close> returns a number
  only, and its two callers that return a state, \<^verbatim>\<open>logLayoutShift\<close> and
  \<^verbatim>\<open>printReport\<close>, leave the sequence as it was.
\<close>

theorem getTotalScore_window:
  "getTotalScore now s
     = foldl double_add 0
         (map score (filter (\<lambda>shift. double_sub now (timestamp shift) \<le> 5000) (shifts s)))
   \<and> (double_sub now t \<le> 5000 \<longleftrightarrow> now - t \<le> 5000 + 1 / 2 ^ 41)
   \<and> getTotalScore now s
     = foldl double_add 0
         (map score (filter (\<lambda>shift. now - timestamp shift \<le> 5000 + 1 / 2 ^ 41) (shifts s)))
   \<and> getTotalScore now (s\<lparr>shifts := shifts s @ [r]\<rparr>)
     = (if now - timestamp r \<le> 5000 + 1 / 2 ^ 41
        then double_add (getTotalScore now s) (score r) else getTotalScore now s)
   \<and> shifts (logLayoutShift sel now detail s) = shifts s
   \<and> shifts (ls_printReport en sel now s) = shifts s"
proof -
  have a: "getTotalScore now s
     = foldl double_add 0
         (map score (filter (\<lambda>shift. double_sub now (timestamp shift) \<le> 5000) (shifts s)))"
    by (simp add: getTotalScore_def foldl_map)
  have c: "getTotalScore now (s\<lparr>shifts := shifts s @ [r]\<rparr>)
     = (if now - timestamp r \<le> 5000 + 1 / 2 ^ 41
        then double_add (getTotalScore now s) (score r) else getTotalScore now s)"
    by (simp add: getTotalScore_exact_window)
  show ?thesis
    using a c in_window_iff [of now t] getTotalScore_exact_window [of now s]
          shifts_logLayoutShift [of sel now detail s] shifts_ls_printReport [of en sel now s]
    by blast
qed

text \<open>
  Claim C4 as stated fails at the edge of the window. The record is stored at the time
  \<^verbatim>\<open>0.1\<close> and the total is asked for at \<^verbatim>\<open>5000.1\<close>: the record's timestamp is
  below \<open>now - 5000\<close>, in exact arithmetic and as the double subtraction computes it,
  yet \<^verbatim>\<open>now - timestamp\<close> is rounded to 5000 and the record's score 1 is the total.
\<close>

theorem window_edge_counterexample:
  "to_double 0.1 < to_double 5000.1 - 5000
   \<and> to_double 0.1 < double_sub (to_double 5000.1) 5000
   \<and> double_sub (to_double 5000.1) (to_double 0.1) = 5000
   \<and> getTotalScore (to_double 5000.1) window_edge_analyzer = 1"
proof -
  have d: "double_sub (to_double 5000.1) 5000 = to_double 5000.1 - 5000"
  proof -
    have "to_double (54975581389 / 549755813888)
            = of_int (round_half_even ((54975581389 / 549755813888) / 2 powi (- 4 - 52)))
                * 2 powi (- 4 - 52)"
      by (rule to_double_in_binade) simp_all
    also have "\<dots> = 54975581389 / 549755813888"
      by (simp add: round_half_even_def Let_def)
    finally show ?thesis
      by (simp add: double_sub_def to_double_5000_1)
  qed
  have e: "double_sub (to_double 5000.1) (to_double 0.1) = 5000"
  proof -
    have "to_double (180143985094819853107 / 36028797018963968)
            = of_int (round_half_even ((180143985094819853107 / 36028797018963968) / 2 powi (12 - 52)))
                * 2 powi (12 - 52)"
      by (rule to_double_in_binade) simp_all
    also have "\<dots> = 5000"
      by (simp add: round_half_even_def Let_def)
    finally show ?thesis
      by (simp add: double_sub_def to_double_5000_1 to_double_one_tenth)
  qed
  have g: "getTotalScore (to_double 5000.1) window_edge_analyzer = 1"
    by (simp add: getTotalScore_def window_edge_analyzer_def e double_add_def to_double_1)
  show ?thesis
    using d e g by (simp add: to_double_5000_1 to_double_one_tenth)
qed

subsection \<open>Entries caused by user input\<close>

lemma handle_entry_recent_input:
  "e_hadRecentInput entry \<Longrightarrow> handle_entry sel (now, entry) s = s"
  by (simp add: handle_entry_def)

lemma shifts_handle_entry:
  "shifts (handle_entry sel p s)
     = shifts s @ (if stored_by (snd p)
                   then [\<lparr>score = e_value (snd p), timestamp = e_startTime (snd p),
                           sources = (case e_sources (snd p) of None \<Rightarrow> [] | Some srcs \<Rightarrow> srcs),
                           hadRecentInput = False\<rparr>]
                   else [])"
  by (cases p) (simp add: handle_entry_def stored_by_def shifts_logLayoutShift Let_def)

lemma length_shifts_observer_callback:
  "length (shifts (observer_callback sel batch s))
     = length (shifts s) + length (filter (\<lambda>p. stored_by (snd p)) batch)"
  unfolding observer_callback_def
  by (induction batch arbitrary: s) (simp_all add: shifts_handle_entry)

lemma no_recent_input_handle_entry:
  "filter hadRecentInput (shifts s) = [] \<Longrightarrow>
   filter hadRecentInput (shifts (handle_entry sel p s)) = []"
  by (simp add: shifts_handle_entry)

lemma no_recent_input_observer_callback:
  "filter hadRecentInput (shifts s) = [] \<Longrightarrow>
   filter hadRecentInput (shifts (observer_callback sel batch s)) = []"
  unfolding observer_callback_def
  by (induction batch arbitrary: s) (simp_all add: no_recent_input_handle_entry)

lemma no_recent_input_step:
  "filter hadRecentInput (shifts s) = [] \<Longrightarrow>
   filter hadRecentInput (shifts (analyzer_step en sel ev s)) = []"
  by (cases ev)
     (simp_all add: analyzer_step_def no_recent_input_observer_callback shifts_ls_printReport
        ls_clear_def ls_destroy_def)

lemma no_recent_input_fold:
  "filter hadRecentInput (shifts s) = [] \<Longrightarrow>
   filter hadRecentInput (shifts (fold (analyzer_step en sel) evs s)) = []"
  by (induction evs arbitrary: s) (simp_all add: no_recent_input_step)

lemma no_recent_input_new:
  "filter hadRecentInput (shifts (LayoutShiftAnalyzer_new node_env api thr)) = []"
  by (simp add: LayoutShiftAnalyzer_new_def initializeObserver_def Let_def
        split: observer_setup.splits)

text \<open>
  Claim C5. An entry with \<^verbatim>\<open>hadRecentInput = true\<close> leaves the analyzer exactly as it
  was, so the stored sequence and its count are unchanged; a batch makes the count
  grow by the number of its layout-shift entries without recent input and by nothing
  else; and after any session (construction, then deliveries, reports, clears and
  destroys in any order) no stored record has \<^verbatim>\<open>hadRecentInput = true\<close>.
\<close>

theorem recent_input_never_stored:
  assumes "e_hadRecentInput entry"
  shows "handle_entry sel (now, entry) s = s
       \<and> length (shifts (observer_callback sel batch s))
           = length (shifts s) + length (filter (\<lambda>p. stored_by (snd p)) batch)
       \<and> filter hadRecentInput (shifts (analyzer_session node_env api thr sel evs)) = []"
  using assms
  by (simp add: handle_entry_recent_input length_shifts_observer_callback
        analyzer_session_def no_recent_input_fold no_recent_input_new)

text \<open>
  On the fresh analyzer in development mode: of a batch with two input-driven shifts
  around a plain one, only the plain one is stored.
\<close>

theorem recent_input_never_stored_witness:
  "e_hadRecentInput input_shift
   \<and> shifts (observer_callback id [(11, input_shift), (21, plain_shift), (22, input_shift)]
        (LayoutShiftAnalyzer_new (Some ''development'') True Subscribed))
       = [\<lparr>score = 0.05, timestamp = 20, sources = [], hadRecentInput = False\<rparr>]
   \<and> handle_entry id (11, input_shift) (LayoutShiftAnalyzer_new (Some ''development'') True Subscribed)
       = LayoutShiftAnalyzer_new (Some ''development'') True Subscribed"
proof -
  have h: "e_hadRecentInput input_shift" by (simp add: input_shift_def)
  have "shifts (observer_callback id [(11, input_shift), (21, plain_shift), (22, input_shift)]
        (LayoutShiftAnalyzer_new (Some ''development'') True Subscribed))
       = [\<lparr>score = 0.05, timestamp = 20, sources = [], hadRecentInput = False\<rparr>]"
    by (simp add: observer_callback_def shifts_handle_entry stored_by_def input_shift_def
          plain_shift_def LayoutShiftAnalyzer_new_def initializeObserver_def
          LayoutShiftAnalyzer_isEnabled_def)
  then show ?thesis
    using h recent_input_never_stored
              [OF h, of id 11 "LayoutShiftAnalyzer_new (Some ''development'') True Subscribed"]
    by simp
qed

subsection \<open>The element list of the report\<close>

lemma sortedElements_length:
  "length (sortedElements sel s) = min 10 (length (getShiftsByElement sel s))"
  by (simp add: sortedElements_def min.commute)

lemma sortedElements_subset:
  "set (sortedElements sel s) \<subseteq> set (getShiftsByElement sel s)"
  unfolding sortedElements_def
  by (metis set_sort set_take_subset)

lemma sortedElements_descending:
  "sorted_wrt (\<lambda>a b. totalScore (snd b) \<le> totalScore (snd a)) (sortedElements sel s)"
proof -
  have "sorted (map (\<lambda>p. - totalScore (snd p))
          (sort_key (\<lambda>p. - totalScore (snd p)) (getShiftsByElement sel s)))"
    by (rule sorted_sort_key)
  then have "sorted_wrt (\<lambda>a b. totalScore (snd b) \<le> totalScore (snd a))
          (sort_key (\<lambda>p. - totalScore (snd p)) (getShiftsByElement sel s))"
    by (simp add: sorted_map)
  then show ?thesis
    unfolding sortedElements_def by (rule sorted_wrt_take)
qed

lemma element_marker_exact:
  "element_marker st =
     (if avgScore st = 0.1 then Yellow
      else if avgScore st = 0.01 then Green
      else severity_color (getShiftSeverity (avgScore st)))"
  by (simp add: element_marker_def severity_color_def getShiftSeverity_def)

lemma printed_report:
  "layout_console (ls_printReport True sel now s)
     = layout_console s
       @ [LayoutReportGroup, TotalCls (total_color (getTotalScore now s)) (getTotalScore now s)]
       @ (if sortedElements sel s = [] then []
          else TopElementsHeader # concat (map element_lines (enumerate 0 (sortedElements sel s))))
       @ [LayoutReportGroupEnd]"
  by (simp add: ls_printReport_def Let_def)

text \<open>
  Claim C8, as the code has it. The enabled \<^verbatim>\<open>printReport()\<close> prints, after the total,
  the elements of \<open>sortedElements\<close>: at most 10 of the elements of
  \<^verbatim>\<open>getShiftsByElement()\<close> (all of them when there are no more than 10), in descending
  order of total score. Each listed element is marked by its own average score: red
  above 0.1, yellow above 0.01, green otherwise. That is the marker of the single-shift
  classification of the average except at the two boundaries: an average of exactly
  0.1 is marked yellow and an average of exactly 0.01 green.
\<close>

theorem printReport_top_elements:
  "layout_console (ls_printReport True sel now s)
     = layout_console s
       @ [LayoutReportGroup, TotalCls (total_color (getTotalScore now s)) (getTotalScore now s)]
       @ (if sortedElements sel s = [] then []
          else TopElementsHeader # concat (map element_lines (enumerate 0 (sortedElements sel s))))
       @ [LayoutReportGroupEnd]
   \<and> length (sortedElements sel s) \<le> 10
   \<and> length (sortedElements sel s) = min 10 (length (getShiftsByElement sel s))
   \<and> set (sortedElements sel s) \<subseteq> set (getShiftsByElement sel s)
   \<and> sorted_wrt (\<lambda>a b. totalScore (snd b) \<le> totalScore (snd a)) (sortedElements sel s)
   \<and> element_lines (index, selector, st)
       = [ElementLine (index + 1)
            (if avgScore st > 0.1 then Red else if avgScore st > 0.01 then Yellow else Green) selector,
          ElementStatsLine (count st) (totalScore st) (avgScore st)]
   \<and> element_marker st
       = (if avgScore st = 0.1 then Yellow
          else if avgScore st = 0.01 then Green
          else severity_color (getShiftSeverity (avgScore st)))"
  using printed_report [of sel now s] sortedElements_length [of sel s]
        sortedElements_subset [of sel s] sortedElements_descending [of sel s]
        element_marker_exact [of st]
  by (simp add: element_lines_def element_marker_def)

text \<open>
  Claim C8 as stated fails at the boundary: for one shift of score 0.1 with one source
  the element's average is 0.1, which the single-shift classification calls high (red),
  and the report marks the element yellow. The report is printed at the time 6000,
  when the shift of the time 100 has left the window of the total.
\<close>

theorem boundary_average_counterexample:
  "layout_console (ls_printReport True id 6000 boundary_analyzer)
     = [LayoutReportGroup, TotalCls Green 0, TopElementsHeader,
        ElementLine 1 Yellow ''div'', ElementStatsLine 1 0.1 0.1, LayoutReportGroupEnd]
   \<and> getShiftSeverity 0.1 = High
   \<and> severity_color (getShiftSeverity 0.1) = Red"
proof -
  have total: "getTotalScore 6000 boundary_analyzer = 0"
    by (simp add: getTotalScore_def boundary_analyzer_def in_window_iff)
  have listed: "sortedElements id boundary_analyzer
                  = [(''div'', \<lparr>count = 1, totalScore = 0.1, avgScore = 0.1\<rparr>)]"
    by (simp add: sortedElements_def getShiftsByElement_def boundary_analyzer_def add_shift_def
          add_source_def with_average_def Object_prototype_properties_def)
  have green: "total_color 0 = Green"
    by (simp add: total_color_def to_double_one_tenth)
  have quiet: "layout_console boundary_analyzer = []"
    by (simp add: boundary_analyzer_def)
  show ?thesis
    by (simp add: printed_report total listed green quiet element_lines_def
          element_marker_def severity_color_def getShiftSeverity_def enumerate_eq_zip)
qed


section \<open>Core-vitals ratings: results\<close>

text \<open>
  Claim C6. For every value the five rating functions follow the threshold table with
  inclusive upper ends of the good and needs-improvement tiers: LCP at most 2500 is
  good, at most 4000 needs improvement, above is poor; FID 100 and 300; CLS 0.1 and
  0.25; FCP 1800 and 3000; TTFB 800 and 1800. In particular LCP 2500 is good, LCP
  2500.01 needs improvement, CLS 0.25 needs improvement and CLS 0.2500001 is poor.
\<close>

theorem rating_thresholds:
  "(getLCPRating v = Good \<longleftrightarrow> v \<le> 2500)
   \<and> (getLCPRating v = NeedsImprovement \<longleftrightarrow> 2500 < v \<and> v \<le> 4000)
   \<and> (getLCPRating v = Poor \<longleftrightarrow> 4000 < v)
   \<and> (getFIDRating v = Good \<longleftrightarrow> v \<le> 100)
   \<and> (getFIDRating v = NeedsImprovement \<longleftrightarrow> 100 < v \<and> v \<le> 300)
   \<and> (getFIDRating v = Poor \<longleftrightarrow> 300 < v)
   \<and> (getCLSRating v = Good \<longleftrightarrow> v \<le> 0.1)
   \<and> (getCLSRating v = NeedsImprovement \<longleftrightarrow> 0.1 < v \<and> v \<le> 0.25)
   \<and> (getCLSRating v = Poor \<longleftrightarrow> 0.25 < v)
   \<and> (getFCPRating v = Good \<longleftrightarrow> v \<le> 1800)
   \<and> (getFCPRating v = NeedsImprovement \<longleftrightarrow> 1800 < v \<and> v \<le> 3000)
   \<and> (getFCPRating v = Poor \<longleftrightarrow> 3000 < v)
   \<and> (getTTFBRating v = Good \<longleftrightarrow> v \<le> 800)
   \<and> (getTTFBRating v = NeedsImprovement \<longleftrightarrow> 800 < v \<and> v \<le> 1800)
   \<and> (getTTFBRating v = Poor \<longleftrightarrow> 1800 < v)
   \<and> getLCPRating 2500 = Good
   \<and> getLCPRating 2500.01 = NeedsImprovement
   \<and> getCLSRating 0.25 = NeedsImprovement
   \<and> getCLSRating 0.2500001 = Poor"
  by (simp add: getLCPRating_def getFIDRating_def getCLSRating_def getFCPRating_def
        getTTFBRating_def)


section \<open>Offloaded image processing: results\<close>

subsection \<open>Replies and timeouts act on one key\<close>

lemma onmessage_unknown_key:
  "DAList.lookup (pendingTasks s) (m_cacheKey msg) = None \<Longrightarrow> onmessage msg s = s"
  by (simp add: onmessage_def)

lemma pendingTasks_settle: "pendingTasks (settle p outcome s) = pendingTasks s"
  by (simp add: settle_def)

lemma onmessage_other_keys:
  "k \<noteq> m_cacheKey msg \<Longrightarrow>
   DAList.lookup (pendingTasks (onmessage msg s)) k = DAList.lookup (pendingTasks s) k"
  by (simp add: onmessage_def Let_def pendingTasks_settle split: option.splits sum.splits)

lemma timeout_other_keys:
  "k \<noteq> cacheKey' \<Longrightarrow>
   DAList.lookup (pendingTasks (timeout_callback p cacheKey' s)) k = DAList.lookup (pendingTasks s) k"
  by (simp add: timeout_callback_def pendingTasks_settle)

subsection \<open>Two pending tasks with the same cache key\<close>

lemma values_update: "snd ` set (AList.update k v al) \<subseteq> insert v (snd ` set al)"
  by (induction al) auto

lemma values_delete: "snd ` set (AList.delete k al) \<subseteq> snd ` set al"
  by (auto simp: AList.delete_eq)

lemma ran_lookup_delete:
  "snd ` set (DAList.impl_of (DAList.delete k m)) \<subseteq> snd ` set (DAList.impl_of m)"
  by (simp add: DAList.delete.rep_eq values_delete)

lemma ran_lookup_update:
  "snd ` set (DAList.impl_of (DAList.update k v m)) \<subseteq> insert v (snd ` set (DAList.impl_of m))"
  by (simp add: DAList.update.rep_eq values_update)

lemma lookup_is_value:
  "DAList.lookup m k = Some v \<Longrightarrow> v \<in> snd ` set (DAList.impl_of m)"
  by (metis DAList.lookup.rep_eq map_of_SomeD image_eqI snd_conv)

lemma orphaned_settle:
  "q \<noteq> p \<Longrightarrow> orphaned p s \<Longrightarrow> orphaned p (settle q outcome s)"
  by (simp add: orphaned_def settle_def)

lemma orphaned_initWorker: "orphaned p s \<Longrightarrow> orphaned p (initWorker b s)"
  by (simp add: orphaned_def initWorker_def)

lemma orphaned_process: 
  assumes "orphaned p s" shows "orphaned p (snd (processImageWithWorker k s))"
proof -
  have ne: "next_promise s \<noteq> p" using assms by (simp add: orphaned_def)
  have r: "p \<notin> snd ` set (DAList.impl_of (DAList.update k (next_promise s) (pendingTasks s)))"
    using assms ne ran_lookup_update [of k "next_promise s" "pendingTasks s"]
    by (auto simp: orphaned_def)
  show ?thesis
    using assms ne r
    by (auto simp: processImageWithWorker_def Let_def orphaned_def settle_def)
qed

lemma orphaned_delete:
  "orphaned p s \<Longrightarrow> orphaned p (s\<lparr>pendingTasks := DAList.delete k (pendingTasks s)\<rparr>)"
  using ran_lookup_delete [of k "pendingTasks s"] by (auto simp: orphaned_def)

lemma orphaned_onmessage:
  assumes "orphaned p s" shows "orphaned p (onmessage msg s)"
proof (cases "m_type msg = ''IMAGE_PROCESSED''")
  case False
  then show ?thesis using assms by (simp add: onmessage_def)
next
  case True
  show ?thesis
  proof (cases "DAList.lookup (pendingTasks s) (m_cacheKey msg)")
    case None
    then show ?thesis using assms True by (simp add: onmessage_def)
  next
    case (Some task)
    then have "task \<in> snd ` set (DAList.impl_of (pendingTasks s))"
      by (rule lookup_is_value)
    then have ne: "task \<noteq> p" using assms by (auto simp: orphaned_def)
    show ?thesis
      using True Some ne orphaned_delete [OF assms, of "m_cacheKey msg"]
      by (simp add: onmessage_def Let_def orphaned_settle split: sum.splits)
  qed
qed

lemma orphaned_timeout:
  assumes "orphaned p s" shows "orphaned p (worker_step TimerFires s)"
proof (cases "timers s")
  case Nil
  then show ?thesis using assms by (simp add: worker_step_def)
next
  case (Cons t rest)
  have ne: "fst (snd t) \<noteq> p" using assms Cons by (auto simp: orphaned_def)
  have o: "orphaned p (s\<lparr>timers := rest\<rparr>)" using assms Cons by (auto simp: orphaned_def)
  show ?thesis
    using Cons ne o orphaned_delete [OF o, of "snd (snd t)"]
    by (simp add: worker_step_def timeout_callback_def orphaned_settle)
qed

lemma orphaned_step: "orphaned p s \<Longrightarrow> orphaned p (worker_step ev s)"
proof (cases ev)
  case TimerFires
  assume "orphaned p s"
  then show ?thesis using TimerFires orphaned_timeout by simp
qed (simp_all add: worker_step_def orphaned_initWorker orphaned_process orphaned_onmessage)

lemma orphaned_run: "orphaned p s \<Longrightarrow> orphaned p (worker_run evs s)"
  unfolding worker_run_def
  by (induction evs arbitrary: s) (simp_all add: orphaned_step)

lemma worker_run_append: "worker_run (xs @ ys) s = worker_run ys (worker_run xs s)"
  by (simp add: worker_run_def)

lemma after_duplicate_key_trace:
  "worker_run duplicate_key_trace worker_state_new
     = \<lparr>imageWorker = True, pendingTasks = DAList.empty,
        promises = [0 \<mapsto> Rejected ''Worker processing timeout''],
        next_promise = 2, posted = [''k'', ''k''], timers = []\<rparr>"
  by (simp add: duplicate_key_trace_def worker_run_def worker_step_def worker_state_new_def
        initWorker_def processImageWithWorker_def timeout_callback_def settle_def Let_def
        DAList.alist_eq_iff DAList.delete.rep_eq DAList.update.rep_eq DAList.empty.rep_eq)

text \<open>
  Claim C9 on the code. Two calls with the same cache key are made while the worker is
  available: the second call takes the registry entry of the first (the key now maps to
  promise 1), and both timeouts are scheduled. The worker does not reply. The first
  timeout finds the key pending, removes the entry of the second call and rejects
  promise 0; the second timeout finds no entry and does nothing. Promise 1 is pending
  with an empty registry and no timeout left, and it stays pending whatever replies,
  timeouts and further calls follow.
\<close>

theorem duplicate_key_task_never_settles:
  "DAList.lookup (pendingTasks (worker_run [InitWorker True, Process ''k'', Process ''k''] worker_state_new)) ''k''
     = Some 1
   \<and> timers (worker_run [InitWorker True, Process ''k'', Process ''k''] worker_state_new)
     = [(10000, 0, ''k''), (10000, 1, ''k'')]
   \<and> worker_run duplicate_key_trace worker_state_new
     = \<lparr>imageWorker = True, pendingTasks = DAList.empty,
        promises = [0 \<mapsto> Rejected ''Worker processing timeout''],
        next_promise = 2, posted = [''k'', ''k''], timers = []\<rparr>
   \<and> promises (worker_run (duplicate_key_trace @ evs) worker_state_new) 1 = None"
proof -
  have "orphaned 1 (worker_run duplicate_key_trace worker_state_new)"
    by (simp add: after_duplicate_key_trace orphaned_def DAList.empty.rep_eq)
  then have "orphaned 1 (worker_run (duplicate_key_trace @ evs) worker_state_new)"
    by (simp add: worker_run_append orphaned_run)
  then have "promises (worker_run (duplicate_key_trace @ evs) worker_state_new) 1 = None"
    by (simp add: orphaned_def)
  moreover have "DAList.lookup (pendingTasks (worker_run [InitWorker True, Process ''k'', Process ''k''] worker_state_new)) ''k'' = Some 1
     \<and> timers (worker_run [InitWorker True, Process ''k'', Process ''k''] worker_state_new)
     = [(10000, 0, ''k''), (10000, 1, ''k'')]"
    by (simp add: worker_run_def worker_step_def worker_state_new_def
        initWorker_def processImageWithWorker_def Let_def)
  ultimately show ?thesis
    using after_duplicate_key_trace by simp
qed

subsection \<open>The data-URL cache stays within 100 entries\<close>

lemma cacheKey_nonempty: "cacheKey number_text r \<noteq> []"
  by (simp add: cacheKey_def)

lemma delete_first_key:
  "distinct (map fst (p # ps)) \<Longrightarrow> AList.delete (fst p) (p # ps) = ps"
  by simp

lemma length_update_le: "length (AList.update k v al) \<le> Suc (length al)"
  by (induction al) simp_all

lemma keys_update: "fst ` set (AList.update k v al) = insert k (fst ` set al)"
  by (simp add: dom_update)

text \<open>The entries of the cache after a store, in iteration order.\<close>

lemma impl_of_cache_store:
  assumes "[] \<notin> fst ` set (DAList.impl_of c)"
  shows "DAList.impl_of (cache_store k v c)
           = AList.update k v (if size c \<ge> 100 then tl (DAList.impl_of c) else DAList.impl_of c)"
proof (cases "DAList.impl_of c")
  case Nil
  then show ?thesis
    by (simp add: cache_store_def firstKey_of_def size_alist_def DAList.update.rep_eq)
next
  case (Cons p ps)
  have d: "distinct (map fst (p # ps))"
    using DAList.impl_of_distinct [of c] Cons by simp
  have ne: "fst p \<noteq> []"
    using assms Cons by auto
  have "DAList.impl_of (DAList.delete (fst p) c) = ps"
    using d Cons by (simp add: DAList.delete.rep_eq)
  then show ?thesis
    using Cons ne
    by (simp add: cache_store_def firstKey_of_def size_alist_def DAList.update.rep_eq)
qed

lemma cache_store_keys:
  assumes "[] \<notin> fst ` set (DAList.impl_of c)" and "k \<noteq> []"
  shows "[] \<notin> fst ` set (DAList.impl_of (cache_store k v c))"
proof -
  have "fst ` set (tl (DAList.impl_of c)) \<subseteq> fst ` set (DAList.impl_of c)"
    by (cases "DAList.impl_of c") auto
  then show ?thesis
    using assms by (auto simp: impl_of_cache_store keys_update simp del: AList.dom_update)
qed

lemma cache_store_size:
  assumes "[] \<notin> fst ` set (DAList.impl_of c)" and "size c \<le> 100"
  shows "size (cache_store k v c) \<le> 100"
proof (cases "size c \<ge> 100")
  case True
  then have "length (tl (DAList.impl_of c)) < 100"
    using assms(2) by (simp add: size_alist_def)
  then have "length (AList.update k v (tl (DAList.impl_of c))) \<le> 100"
    using length_update_le [of k v "tl (DAList.impl_of c)"] by linarith
  then show ?thesis
    using True assms(1) by (simp add: size_alist_def impl_of_cache_store)
next
  case False
  then have "length (AList.update k v (DAList.impl_of c)) \<le> 100"
    using length_update_le [of k v "DAList.impl_of c"] by (simp add: size_alist_def)
  then show ?thesis
    using False assms(1) by (simp add: size_alist_def impl_of_cache_store)
qed

lemma cache_fold_invariant:
  assumes "[] \<notin> fst ` set (DAList.impl_of c)" and "size c \<le> 100"
  shows "[] \<notin> fst ` set (DAList.impl_of (fold (cache_save nt) saves c))
       \<and> size (fold (cache_save nt) saves c) \<le> 100"
  using assms
proof (induction saves arbitrary: c)
  case Nil
  then show ?case by simp
next
  case (Cons p saves)
  have "[] \<notin> fst ` set (DAList.impl_of (cache_save nt p c))"
    using Cons.prems(1) by (simp add: cache_save_def cache_store_keys cacheKey_nonempty)
  moreover have "size (cache_save nt p c) \<le> 100"
    using Cons.prems by (simp add: cache_save_def cache_store_size)
  ultimately show ?case
    using Cons.IH by simp
qed

lemma cache_after_invariant:
  "[] \<notin> fst ` set (DAList.impl_of (cache_after nt saves)) \<and> size (cache_after nt saves) \<le> 100"
  unfolding cache_after_def
  by (rule cache_fold_invariant) (simp_all add: size_alist_def DAList.empty.rep_eq)

lemma cache_check_after_store: "DAList.lookup (cache_store k v c) k = Some v"
  by (simp add: cache_store_def Let_def)

text \<open>
  Claim C10. After any sequence of stores from the empty cache the cache holds at most
  100 entries. A store into a cache that already holds 100 entries first removes the
  first entry in insertion order, the one inserted longest ago, and then sets the new
  key; below 100 entries it sets the key at once; either way the size stays within
  100. A key that has been stored is found by the check at the start of the callback,
  which returns the stored value and leaves the cache alone.
\<close>

theorem image_cache_bounded:
  "size (cache_after number_text saves) \<le> 100
   \<and> DAList.impl_of (cache_save number_text (r, dataUrl) (cache_after number_text saves))
       = AList.update (cacheKey number_text r) dataUrl
           (if size (cache_after number_text saves) \<ge> 100
            then tl (DAList.impl_of (cache_after number_text saves))
            else DAList.impl_of (cache_after number_text saves))
   \<and> size (cache_save number_text (r, dataUrl) (cache_after number_text saves)) \<le> 100
   \<and> cache_check number_text r (cache_save number_text (r, dataUrl) imageCache) = Some dataUrl
   \<and> cache_check number_text r imageCache = DAList.lookup imageCache (cacheKey number_text r)"
  using cache_after_invariant [of number_text saves]
  by (simp add: cache_save_def impl_of_cache_store cache_store_size cache_check_def
        cache_check_after_store)

end
